theory Spec2Isabelle
  imports Main
begin

section \<open>Kubernetes object model\<close>

text \<open>
  The parts of the Kubernetes API types that the controllers read or write.
  A Go map is the list of its entries, read with \<open>map_of\<close>, and optional where it
  may be \<^verbatim>\<open>nil\<close> (\<open>None\<close> is \<^verbatim>\<open>nil\<close>, \<open>Some []\<close> the empty map);
  a Go slice is a list (a \<^verbatim>\<open>nil\<close> slice and an empty one both have length 0 and
  are the empty list); a pointer that may be \<^verbatim>\<open>nil\<close> is an option.
\<close>

type_synonym StringMap = "(string \<times> string) list option"

record OwnerReference =
  refKind :: string
  refName :: string
  refUID :: string
  Controller :: "bool option"

record ObjectMeta =
  Name :: string
  Namespace :: string
  UID :: string
  Generation :: int
  CreationTimestamp :: nat
  DeletionTimestamp :: "nat option"
  Labels :: StringMap
  Annotations :: StringMap
  OwnerReferences :: "OwnerReference list"

record Container =
  containerName :: string
  containerImage :: string

record PodSpec =
  Containers :: "Container list"
  podServiceAccountName :: string

record PodTemplateSpec =
  templateObjectMeta :: ObjectMeta
  templateSpec :: PodSpec

text \<open>Go zero values: \<^verbatim>\<open>corev1.Container{}\<close> and \<^verbatim>\<open>corev1.PodTemplateSpec{}\<close>.\<close>

definition zeroContainer :: Container where
  "zeroContainer = \<lparr>containerName = [], containerImage = []\<rparr>"

definition zeroObjectMeta :: ObjectMeta where
  "zeroObjectMeta =
     \<lparr>Name = [], Namespace = [], UID = [], Generation = 0, CreationTimestamp = 0,
      DeletionTimestamp = None,
      Labels = None, Annotations = None, OwnerReferences = []\<rparr>"

definition zeroPodTemplateSpec :: PodTemplateSpec where
  "zeroPodTemplateSpec =
     \<lparr>templateObjectMeta = zeroObjectMeta,
      templateSpec = \<lparr>Containers = [], podServiceAccountName = []\<rparr>\<rparr>"

section \<open>Deployer defaulting\<close>

text \<open>
  \<^verbatim>\<open>DeployerSpec\<close> with the two fields \<^verbatim>\<open>Default\<close> touches; every other field of
  the Go struct lives in the record's extension part, so a statement about
  \<open>'a DeployerSpec_scheme\<close> covers them.
\<close>

record DeployerSpec =
  Template :: "PodTemplateSpec option"
  IngressPolicy :: string

text \<open>
  \<^verbatim>\<open>func (s *DeployerSpec) Default()\<close>. The constant \<^verbatim>\<open>IngressPolicyClusterLocal\<close>
  is declared in another file of the package and is a parameter. After the first
  statement the template is never \<^verbatim>\<open>nil\<close>; \<open>defaultTemplate\<close> is the three
  statements that follow it.
\<close>

definition defaultTemplate :: "PodTemplateSpec \<Rightarrow> PodTemplateSpec" where
  "defaultTemplate t0 =
     (let t1 = (if Annotations (templateObjectMeta t0) = None
                then t0\<lparr>templateObjectMeta := (templateObjectMeta t0)\<lparr>Annotations := Some []\<rparr>\<rparr>
                else t0);
          t2 = (if Labels (templateObjectMeta t1) = None
                then t1\<lparr>templateObjectMeta := (templateObjectMeta t1)\<lparr>Labels := Some []\<rparr>\<rparr>
                else t1);
          t3 = (if length (Containers (templateSpec t2)) = 0
                then t2\<lparr>templateSpec := (templateSpec t2)
                          \<lparr>Containers := Containers (templateSpec t2) @ [zeroContainer]\<rparr>\<rparr>
                else t2)
      in t3)"

definition Default :: "string \<Rightarrow> 'a DeployerSpec_scheme \<Rightarrow> 'a DeployerSpec_scheme" where
  "Default IngressPolicyClusterLocal s =
     (let t0 = (case Template s of None \<Rightarrow> zeroPodTemplateSpec | Some t \<Rightarrow> t);
          s1 = s\<lparr>Template := Some (defaultTemplate t0)\<rparr>
      in if IngressPolicy s1 = [] then s1\<lparr>IngressPolicy := IngressPolicyClusterLocal\<rparr> else s1)"

section \<open>Status conditions\<close>

text \<open>
  \<^verbatim>\<open>apis.Condition\<close> as the test table of the Deployer controller writes it:
  \<^verbatim>\<open>Type\<close>, \<^verbatim>\<open>Status\<close>, \<^verbatim>\<open>Reason\<close>, \<^verbatim>\<open>Message\<close>. The transition time is left
  out: no function embedded here reads it.
\<close>

datatype ConditionStatus = ConditionTrue | ConditionFalse | ConditionUnknown

record Condition =
  Type :: string
  Status :: ConditionStatus
  Reason :: string
  Message :: string

definition ConditionReady :: string where
  "ConditionReady = ''Ready''"

fun GetCondition :: "string \<Rightarrow> Condition list \<Rightarrow> Condition option" where
  "GetCondition t [] = None"
| "GetCondition t (c # cs) = (if Type c = t then Some c else GetCondition t cs)"

text \<open>
  The condition set that maintains the conditions of an owner and derives
  \<^verbatim>\<open>Ready\<close> (\<^verbatim>\<open>pkg/apis\<close>) is code of the repository whose source is not part
  of this development. The definitions from here to the end of the section
  follow section 4.2 of the specification, the Condition Aggregator. A
  controller declares its dependency condition types up front, in a fixed
  order: the list \<open>deps\<close>.
\<close>

text \<open>
  Modelled from the spec: the condition a declared type is tracked by; a type
  with no condition yet counts as \<^verbatim>\<open>Unknown\<close>, the initial value (the condition
  set of \<^verbatim>\<open>pkg/apis\<close> is missing).
\<close>

definition trackedCondition :: "Condition list \<Rightarrow> string \<Rightarrow> Condition" where
  "trackedCondition cs t =
     (case GetCondition t cs of
        Some c \<Rightarrow> c
      | None \<Rightarrow> \<lparr>Type = t, Status = ConditionUnknown, Reason = [], Message = []\<rparr>)"

text \<open>
  Modelled from the spec: the first tracked condition that is \<^verbatim>\<open>False\<close>, in
  declared order, "first-found-false wins" (the condition set of \<^verbatim>\<open>pkg/apis\<close>
  is missing).
\<close>

fun firstFalse :: "Condition list \<Rightarrow> string list \<Rightarrow> Condition option" where
  "firstFalse cs [] = None"
| "firstFalse cs (t # ts) =
     (if Status (trackedCondition cs t) = ConditionFalse then Some (trackedCondition cs t)
      else firstFalse cs ts)"

text \<open>
  Modelled from the spec: whether some tracked condition is \<^verbatim>\<open>Unknown\<close> (the
  condition set of \<^verbatim>\<open>pkg/apis\<close> is missing).
\<close>

fun anyUnknown :: "Condition list \<Rightarrow> string list \<Rightarrow> bool" where
  "anyUnknown cs [] = False"
| "anyUnknown cs (t # ts) =
     (if Status (trackedCondition cs t) = ConditionUnknown then True else anyUnknown cs ts)"

text \<open>
  Modelled from the spec: the \<^verbatim>\<open>Ready\<close> aggregation rule (the condition set of
  \<^verbatim>\<open>pkg/apis\<close> is missing). The first \<^verbatim>\<open>False\<close> condition in declared order
  gives \<^verbatim>\<open>Ready\<close> its status, reason and message; with none \<^verbatim>\<open>False\<close>, an
  \<^verbatim>\<open>Unknown\<close> one makes \<^verbatim>\<open>Ready\<close> unknown; otherwise \<^verbatim>\<open>Ready\<close> is \<^verbatim>\<open>True\<close>.
\<close>

definition aggregateReady :: "string list \<Rightarrow> Condition list \<Rightarrow> Condition" where
  "aggregateReady deps cs =
     (case firstFalse cs deps of
        Some c \<Rightarrow>
          \<lparr>Type = ConditionReady, Status = ConditionFalse, Reason = Reason c, Message = Message c\<rparr>
      | None \<Rightarrow>
          if anyUnknown cs deps
          then \<lparr>Type = ConditionReady, Status = ConditionUnknown, Reason = [], Message = []\<rparr>
          else \<lparr>Type = ConditionReady, Status = ConditionTrue, Reason = [], Message = []\<rparr>)"

text \<open>
  Modelled from the spec: setting one condition (the condition set of
  \<^verbatim>\<open>pkg/apis\<close> is missing). The type stays unique in the set: the condition of
  that type is replaced where it stands, or the new one is appended.
\<close>

fun setCondition :: "Condition \<Rightarrow> Condition list \<Rightarrow> Condition list" where
  "setCondition c [] = [c]"
| "setCondition c (d # ds) = (if Type d = Type c then c # ds else d # setCondition c ds)"

text \<open>
  Modelled from the spec: marking a tracked condition (the condition set of
  \<^verbatim>\<open>pkg/apis\<close> is missing). \<^verbatim>\<open>Ready\<close> is never set directly: it is derived again
  by the aggregation rule.
\<close>

definition markCondition :: "string list \<Rightarrow> Condition \<Rightarrow> Condition list \<Rightarrow> Condition list" where
  "markCondition deps c cs =
     (let cs' = setCondition c cs in setCondition (aggregateReady deps cs') cs')"

text \<open>
  Modelled from the spec: \<^verbatim>\<open>InitializeConditions\<close> (the condition set of
  \<^verbatim>\<open>pkg/apis\<close> is missing). It never overwrites a condition, it only adds the
  missing types, as \<^verbatim>\<open>Unknown\<close>.
\<close>

fun addMissing :: "string list \<Rightarrow> Condition list \<Rightarrow> Condition list" where
  "addMissing [] cs = cs"
| "addMissing (t # ts) cs =
     addMissing ts
       (case GetCondition t cs of
          Some c \<Rightarrow> cs
        | None \<Rightarrow> cs @ [\<lparr>Type = t, Status = ConditionUnknown, Reason = [], Message = []\<rparr>])"

definition initializeConditions :: "string list \<Rightarrow> Condition list \<Rightarrow> Condition list" where
  "initializeConditions deps cs = addMissing (deps @ [ConditionReady]) cs"

text \<open>
  Modelled from the spec: \<^verbatim>\<open>MarkXNotOwned(name)\<close> (the life cycle methods of the
  owner's status are missing). The condition \<open>t\<close> becomes \<^verbatim>\<open>False\<close> with the
  reason \<^verbatim>\<open>NotOwned\<close> and a message that names the child; the text of the
  message is the one the test table of the Deployer controller expects for a
  Route.
\<close>

definition notOwnedMessage :: "string \<Rightarrow> string \<Rightarrow> string \<Rightarrow> string" where
  "notOwnedMessage kind name ownerKind =
     ''There is an existing '' @ kind @ '' \"'' @ name @ ''\" that the '' @ ownerKind @
     '' does not own.''"

definition markNotOwned ::
  "string list \<Rightarrow> string \<Rightarrow> string \<Rightarrow> string \<Rightarrow> string \<Rightarrow> Condition list \<Rightarrow> Condition list" where
  "markNotOwned deps t kind ownerKind name cs =
     markCondition deps
       \<lparr>Type = t, Status = ConditionFalse, Reason = ''NotOwned'',
        Message = notOwnedMessage kind name ownerKind\<rparr> cs"

text \<open>
  Modelled from the spec: \<^verbatim>\<open>PropagateChildStatus\<close> (the life cycle methods of
  the owner's status are missing). The readiness condition of the child is
  copied onto the owner's condition \<open>t\<close>: status, reason and message as they
  are.
\<close>

definition propagateChildStatus ::
  "string list \<Rightarrow> string \<Rightarrow> Condition list \<Rightarrow> Condition list \<Rightarrow> Condition list" where
  "propagateChildStatus deps t childConditions cs =
     (case GetCondition ConditionReady childConditions of
        None \<Rightarrow> cs
      | Some c \<Rightarrow> markCondition deps (c\<lparr>Type := t\<rparr>) cs)"

text \<open>
  Modelled from the spec: \<^verbatim>\<open>IsReady\<close> (the life cycle methods of the owner's
  status are missing): the \<^verbatim>\<open>Ready\<close> condition is \<^verbatim>\<open>True\<close>.
\<close>

definition isReady :: "Condition list \<Rightarrow> bool" where
  "isReady cs = (Status (trackedCondition cs ConditionReady) = ConditionTrue)"

section \<open>Errors and ownership\<close>

text \<open>
  Errors are values. \<open>NotFound\<close> and \<open>AlreadyExists\<close> are the API status errors
  that \<^verbatim>\<open>apierrs.IsNotFound\<close> and \<^verbatim>\<open>apierrs.IsAlreadyExists\<close> recognise;
  \<open>OtherError\<close> is any other error a collaborator returns; \<open>DoesNotOwn\<close> and
  \<open>DiffFailed\<close> are the two errors the FunctionBuild reconciler makes itself with
  \<^verbatim>\<open>fmt.Errorf\<close> (owner name, child kind, child name; child kind, cause).
\<close>

datatype error =
    NotFound
  | AlreadyExists
  | OtherError string
  | DoesNotOwn string string string
  | DiffFailed string error

definition IsNotFound :: "error \<Rightarrow> bool" where
  "IsNotFound e = (e = NotFound)"

definition IsAlreadyExists :: "error \<Rightarrow> bool" where
  "IsAlreadyExists e = (e = AlreadyExists)"

text \<open>
  \<^verbatim>\<open>metav1.IsControlledBy(obj, owner)\<close>: the first owner reference whose
  \<^verbatim>\<open>Controller\<close> flag is set and true is the controller; the object is
  controlled by the owner when that reference carries the owner's UID.
\<close>

fun GetControllerOf :: "OwnerReference list \<Rightarrow> OwnerReference option" where
  "GetControllerOf [] = None"
| "GetControllerOf (r # rs) = (if Controller r = Some True then Some r else GetControllerOf rs)"

definition IsControlledBy :: "ObjectMeta \<Rightarrow> ObjectMeta \<Rightarrow> bool" where
  "IsControlledBy obj owner =
     (case GetControllerOf (OwnerReferences obj) of
        None \<Rightarrow> False
      | Some ref \<Rightarrow> refUID ref = UID owner)"

text \<open>
  \<^verbatim>\<open>equality.Semantic.DeepEqual\<close> on two label maps: a \<^verbatim>\<open>nil\<close> map and an empty
  map are equal. \<open>sameMap\<close> compares two entry lists as maps, key by key.
\<close>

definition entries :: "('k \<times> 'v) list option \<Rightarrow> ('k \<times> 'v) list" where
  "entries m = (case m of None \<Rightarrow> [] | Some xs \<Rightarrow> xs)"

definition sameMap :: "('k \<times> 'v) list \<Rightarrow> ('k \<times> 'v) list \<Rightarrow> bool" where
  "sameMap xs ys = (\<forall>k\<in>set (map fst xs @ map fst ys). map_of xs k = map_of ys k)"

definition semanticMapEqual :: "StringMap \<Rightarrow> StringMap \<Rightarrow> bool" where
  "semanticMapEqual a b = sameMap (entries a) (entries b)"

section \<open>Child synchroniser of the Deployer controller\<close>

text \<open>
  The Deployer controller (\<^verbatim>\<open>pkg/controllers/knative\<close>) is code of the repository
  whose source is not part of this development; its test table is. The
  definitions of this section follow section 4.3 of the specification, the
  Child Synchronizer, with the properties "Extras cleanup" (section 8) and
  "Partial multi-delete failure" (section 7).

  The cluster as one cycle sees it: the children that exist and the write calls
  issued so far, in order. \<open>Reactors\<close> are the induced failures of the test
  table (\<^verbatim>\<open>rtesting.InduceFailure\<close>); a delete can be made to fail per name.
\<close>

record ChildObject =
  childObjectMeta :: ObjectMeta
  childSpec :: string

datatype ChildWrite = ChildCreate ChildObject | ChildUpdate ChildObject | ChildDelete string

record Cluster =
  children :: "ChildObject list"
  writes :: "ChildWrite list"

record Reactors =
  failCreate :: "error option"
  failUpdate :: "error option"
  failDelete :: "string \<Rightarrow> error option"

definition childNamed :: "ChildObject \<Rightarrow> string" where
  "childNamed x = Name (childObjectMeta x)"

text \<open>
  Modelled from the spec: steps 2 and 3, the listed children that the owner
  controls; the others are foreign and are left alone (the Deployer
  controller is missing).
\<close>

definition ownedChildren :: "ObjectMeta \<Rightarrow> Cluster \<Rightarrow> ChildObject list" where
  "ownedChildren owner cl = filter (\<lambda>x. IsControlledBy (childObjectMeta x) owner) (children cl)"

text \<open>
  Modelled from the spec: one delete call (the Deployer controller is
  missing). The call is issued; when it fails the cluster keeps the child, when
  it succeeds the child is gone for good.
\<close>

definition deleteChild :: "Reactors \<Rightarrow> ChildObject \<Rightarrow> Cluster \<Rightarrow> error option \<times> Cluster" where
  "deleteChild r x cl =
     (let cl' = cl\<lparr>writes := writes cl @ [ChildDelete (childNamed x)]\<rparr>
      in case failDelete r (childNamed x) of
           Some e \<Rightarrow> (Some e, cl')
         | None \<Rightarrow> (None, cl'\<lparr>children := filter (\<lambda>y. childNamed y \<noteq> childNamed x) (children cl')\<rparr>))"

text \<open>
  Modelled from the spec: the deletion of the extras, in list order (the
  Deployer controller is missing). A failing delete ends the loop with its
  error: the extras after it are not attempted, the deletions before it stay.
\<close>

fun deleteExtras :: "Reactors \<Rightarrow> ChildObject list \<Rightarrow> Cluster \<Rightarrow> error option \<times> Cluster" where
  "deleteExtras r [] cl = (None, cl)"
| "deleteExtras r (x # xs) cl =
     (case deleteChild r x cl of
        (Some e, cl') \<Rightarrow> (Some e, cl')
      | (None, cl') \<Rightarrow> deleteExtras r xs cl')"

text \<open>
  Modelled from the spec: step 4, the create call (the Deployer controller is
  missing). An already-exists failure is tolerated: no error, no child.
\<close>

definition createChild ::
  "Reactors \<Rightarrow> ChildObject \<Rightarrow> Cluster \<Rightarrow> (error + ChildObject option) \<times> Cluster" where
  "createChild r d cl =
     (let cl' = cl\<lparr>writes := writes cl @ [ChildCreate d]\<rparr>
      in case failCreate r of
           Some e \<Rightarrow> (if IsAlreadyExists e then (Inr None, cl') else (Inl e, cl'))
         | None \<Rightarrow> (Inr (Some d), cl'\<lparr>children := children cl' @ [d]\<rparr>))"

text \<open>
  Modelled from the spec: step 5, semantic equality on the owned fields and the
  targeted update that copies only them (the Deployer controller is missing).
\<close>

definition childSemanticEquals :: "ChildObject \<Rightarrow> ChildObject \<Rightarrow> bool" where
  "childSemanticEquals desired actual =
     (childSpec desired = childSpec actual \<and>
      semanticMapEqual (Labels (childObjectMeta desired)) (Labels (childObjectMeta actual)))"

definition updateChild ::
  "Reactors \<Rightarrow> ChildObject \<Rightarrow> ChildObject \<Rightarrow> Cluster \<Rightarrow> (error + ChildObject option) \<times> Cluster" where
  "updateChild r d actual cl =
     (let existing = actual\<lparr>childSpec := childSpec d,
                            childObjectMeta := (childObjectMeta actual)
                               \<lparr>Labels := Labels (childObjectMeta d)\<rparr>\<rparr>;
          cl' = cl\<lparr>writes := writes cl @ [ChildUpdate existing]\<rparr>
      in case failUpdate r of
           Some e \<Rightarrow> (Inl e, cl')
         | None \<Rightarrow>
             (Inr (Some existing),
              cl'\<lparr>children := map (\<lambda>y. if childNamed y = childNamed actual then existing else y)
                                 (children cl')\<rparr>))"

text \<open>
  Modelled from the spec: steps 1, 4, 5 and 7 for no owned child and for one
  owned child (the Deployer controller is missing).
\<close>

definition convergeNone ::
  "Reactors \<Rightarrow> ChildObject option \<Rightarrow> Cluster \<Rightarrow> (error + ChildObject option) \<times> Cluster" where
  "convergeNone r desired cl =
     (case desired of None \<Rightarrow> (Inr None, cl) | Some d \<Rightarrow> createChild r d cl)"

definition convergeActual ::
  "Reactors \<Rightarrow> ChildObject option \<Rightarrow> ChildObject \<Rightarrow> Cluster \<Rightarrow>
     (error + ChildObject option) \<times> Cluster" where
  "convergeActual r desired actual cl =
     (case desired of
        None \<Rightarrow>
          (case deleteChild r actual cl of
             (Some e, cl') \<Rightarrow> (Inl e, cl')
           | (None, cl') \<Rightarrow> (Inr None, cl'))
      | Some d \<Rightarrow>
          if childSemanticEquals d actual then (Inr (Some actual), cl)
          else updateChild r d actual cl)"

text \<open>
  Modelled from the spec: which of several owned children is the canonical one
  (the Deployer controller is missing). Step 6 keeps the most recently created
  child: \<open>mostRecent\<close>. The rows "delete extra configurations" and "delete
  extra routes" of the test table show the Deployer controller keeping none of
  them and creating the desired child afterwards: \<open>keepNone\<close>. The choice is
  the parameter \<open>keep\<close> of \<open>Converge\<close>; the extras are the owned children that
  are not kept.
\<close>

fun mostRecent :: "ChildObject list \<Rightarrow> ChildObject option" where
  "mostRecent [] = None"
| "mostRecent (x # xs) =
     (case mostRecent xs of
        None \<Rightarrow> Some x
      | Some y \<Rightarrow>
          if CreationTimestamp (childObjectMeta y) \<le> CreationTimestamp (childObjectMeta x)
          then Some x else Some y)"

definition keepNone :: "ChildObject list \<Rightarrow> ChildObject option" where
  "keepNone several = None"

definition extrasOf ::
  "(ChildObject list \<Rightarrow> ChildObject option) \<Rightarrow> ChildObject list \<Rightarrow> ChildObject list" where
  "extrasOf keep several = filter (\<lambda>x. keep several \<noteq> Some x) several"

text \<open>
  Modelled from the spec: the convergence of one child kind, steps 1 to 7 (the
  Deployer controller is missing). With several owned children the extras are
  deleted first; then the cycle goes on with the child that is kept, or with
  none.
\<close>

definition Converge ::
  "Reactors \<Rightarrow> (ChildObject list \<Rightarrow> ChildObject option) \<Rightarrow> ObjectMeta \<Rightarrow>
     ChildObject option \<Rightarrow> Cluster \<Rightarrow> (error + ChildObject option) \<times> Cluster" where
  "Converge r keep owner desired cl =
     (case ownedChildren owner cl of
        [] \<Rightarrow> convergeNone r desired cl
      | [actual] \<Rightarrow> convergeActual r desired actual cl
      | several \<Rightarrow>
          (case deleteExtras r (extrasOf keep several) cl of
             (Some e, cl') \<Rightarrow> (Inl e, cl')
           | (None, cl') \<Rightarrow>
               (case keep several of
                  None \<Rightarrow> convergeNone r desired cl'
                | Some actual \<Rightarrow> convergeActual r desired actual cl')))"

section \<open>The FunctionBuild reconciler\<close>

subsection \<open>Objects\<close>

text \<open>
  A quantity is its value in thousandths, so that two quantities are
  semantically equal exactly when they are equal; a resource list is a map,
  given by its entries.
\<close>

record ResourceRequirements =
  Limits :: "(string \<times> int) list"
  Requests :: "(string \<times> int) list"

record PersistentVolumeClaimSpec =
  Resources :: ResourceRequirements
  AccessModes :: "string list"
  StorageClassName :: "string option"

record PersistentVolumeClaimStatus =
  Phase :: string

record PersistentVolumeClaim =
  pvcObjectMeta :: ObjectMeta
  pvcSpec :: PersistentVolumeClaimSpec
  pvcStatus :: PersistentVolumeClaimStatus

record BuildSpec =
  ServiceAccountName :: string
  Steps :: "Container list"

record BuildStatus =
  buildConditions :: "Condition list"

record Build =
  buildObjectMeta :: ObjectMeta
  buildSpec :: BuildSpec
  buildStatus :: BuildStatus

record FunctionBuildSpec =
  Image :: string

text \<open>
  The status of a FunctionBuild. \<^verbatim>\<open>Conditions\<close> is a slice, and a \<^verbatim>\<open>nil\<close> slice
  (\<open>None\<close>) is not an empty one (\<open>Some []\<close>): \<^verbatim>\<open>reflect.DeepEqual\<close> tells them
  apart. \<open>elements\<close> gives the conditions of either.
\<close>

record FunctionBuildStatus =
  Conditions :: "Condition list option"
  BuildCacheName :: string
  BuildName :: string
  LatestImage :: string
  ObservedGeneration :: int

record FunctionBuild =
  fbObjectMeta :: ObjectMeta
  fbSpec :: FunctionBuildSpec
  fbStatus :: FunctionBuildStatus

definition elements :: "'a list option \<Rightarrow> 'a list" where
  "elements s = (case s of None \<Rightarrow> [] | Some xs \<Rightarrow> xs)"

text \<open>
  The two comparisons of statuses that the driver makes.
  \<^verbatim>\<open>equality.Semantic.DeepEqual\<close> takes a \<^verbatim>\<open>nil\<close> slice and an empty slice for
  equal and compares the other fields as they are; \<^verbatim>\<open>reflect.DeepEqual\<close> holds
  only when the two slices are both \<^verbatim>\<open>nil\<close> or both not, with the same
  conditions, and the other fields agree: it is equality of the records. So
  \<^verbatim>\<open>reflect.DeepEqual\<close> implies \<^verbatim>\<open>equality.Semantic.DeepEqual\<close>, and not the other
  way round. Both compare a condition on the four fields it has here.
\<close>

definition semanticStatusEqual :: "FunctionBuildStatus \<Rightarrow> FunctionBuildStatus \<Rightarrow> bool" where
  "semanticStatusEqual a b =
     (elements (Conditions a) = elements (Conditions b) \<and>
      BuildCacheName a = BuildCacheName b \<and>
      BuildName a = BuildName b \<and>
      LatestImage a = LatestImage b \<and>
      ObservedGeneration a = ObservedGeneration b)"

definition reflectStatusEqual :: "FunctionBuildStatus \<Rightarrow> FunctionBuildStatus \<Rightarrow> bool" where
  "reflectStatusEqual a b = (a = b)"

subsection \<open>Collaborators\<close>

text \<open>
  What a Go function of the reconciler gives back: a value with a \<^verbatim>\<open>nil\<close> error,
  an error, or a panic (a \<^verbatim>\<open>nil\<close> pointer dereference).
\<close>

datatype 'a result = Ok 'a | Err error | Panic

text \<open>
  The functions of the repository that the reconciler calls and that live in
  other packages, whose source is not part of this development: defaulting,
  the status life cycle of
  \<^verbatim>\<open>FunctionBuildStatus\<close>, the names of the children (\<^verbatim>\<open>resourcenames\<close>) and
  their desired state (\<^verbatim>\<open>resources\<close>). They are parameters. A status method
  mutates the status it is called on and is a function from the status to the
  new one.
\<close>

record Helpers =
  SetDefaults :: "FunctionBuild \<Rightarrow> FunctionBuild"
  InitializeConditions :: "FunctionBuildStatus \<Rightarrow> FunctionBuildStatus"
  MarkBuildCacheNotOwned :: "string \<Rightarrow> FunctionBuildStatus \<Rightarrow> FunctionBuildStatus"
  MarkBuildCacheNotUsed :: "FunctionBuildStatus \<Rightarrow> FunctionBuildStatus"
  PropagateBuildCacheStatus ::
    "PersistentVolumeClaimStatus \<Rightarrow> FunctionBuildStatus \<Rightarrow> FunctionBuildStatus"
  MarkBuildNotOwned :: "string \<Rightarrow> FunctionBuildStatus \<Rightarrow> FunctionBuildStatus"
  PropagateBuildStatus :: "BuildStatus \<Rightarrow> FunctionBuildStatus \<Rightarrow> FunctionBuildStatus"
  IsReady :: "FunctionBuildStatus \<Rightarrow> bool"
  MarkImageMissing :: "string \<Rightarrow> FunctionBuildStatus \<Rightarrow> FunctionBuildStatus"
  namesBuildCache :: "FunctionBuild \<Rightarrow> string"
  namesBuild :: "FunctionBuild \<Rightarrow> string"
  MakeBuildCache :: "FunctionBuild \<Rightarrow> error + PersistentVolumeClaim option"
  MakeBuild :: "FunctionBuild \<Rightarrow> error + Build option"

text \<open>
  The answers of the world outside the process during one cycle: the key
  parser, the listers (informer caches), the clients, the digest resolver and
  \<^verbatim>\<open>kmp.SafeDiff\<close>. Each call site of the reconciler runs at most once in a
  cycle, so one answer per call site and argument describes any cycle. The
  FunctionBuild lister is read twice, in \<^verbatim>\<open>Reconcile\<close> and again in
  \<^verbatim>\<open>updateStatus\<close>, and may answer differently the second time.
\<close>

record Client =
  SplitMetaNamespaceKey :: "string \<Rightarrow> error + string \<times> string"
  functionbuildGet :: "string \<Rightarrow> string \<Rightarrow> error + FunctionBuild"
  functionbuildGetAgain :: "string \<Rightarrow> string \<Rightarrow> error + FunctionBuild"
  pvcGet :: "string \<Rightarrow> string \<Rightarrow> error + PersistentVolumeClaim"
  knbuildGet :: "string \<Rightarrow> string \<Rightarrow> error + Build"
  pvcCreate :: "string \<Rightarrow> PersistentVolumeClaim \<Rightarrow> error + PersistentVolumeClaim"
  pvcUpdate :: "string \<Rightarrow> PersistentVolumeClaim \<Rightarrow> error + PersistentVolumeClaim"
  pvcDelete :: "string \<Rightarrow> string \<Rightarrow> string \<Rightarrow> error option"
  knbuildCreate :: "string \<Rightarrow> Build \<Rightarrow> error + Build"
  knbuildUpdate :: "string \<Rightarrow> Build \<Rightarrow> error + Build"
  UpdateStatus :: "string \<Rightarrow> FunctionBuild \<Rightarrow> error + FunctionBuild"
  Resolve :: "string \<Rightarrow> string \<times> string \<Rightarrow> string set \<Rightarrow> error + string"
  SafeDiffPVC :: "PersistentVolumeClaimSpec \<Rightarrow> PersistentVolumeClaimSpec \<Rightarrow> error + string"
  SafeDiffBuild :: "BuildSpec \<Rightarrow> BuildSpec \<Rightarrow> error + string"

text \<open>
  The effects of a cycle, in the order they happen: every call that writes to
  the cluster (whether it succeeds or not), every call of the digest resolver,
  and every recorded event (type, reason, name of the object it is about; the
  formatted text is left out). Log lines are not effects.
\<close>

datatype effect =
    CreatePVC string PersistentVolumeClaim
  | UpdatePVC string PersistentVolumeClaim
  | DeletePVC string string string
  | CreateBuild string Build
  | UpdateBuild string Build
  | UpdateStatusCall string FunctionBuild
  | ResolveCall string "string \<times> string" "string set"
  | Eventf string string string

fun errorString :: "error \<Rightarrow> string" where
  "errorString NotFound = ''not found''"
| "errorString AlreadyExists = ''already exists''"
| "errorString (OtherError s) = s"
| "errorString (DoesNotOwn owner kind name) =
     ''FunctionBuild: \"'' @ owner @ ''\" does not own '' @ kind @ '': \"'' @ name @ ''\"''"
| "errorString (DiffFailed kind e) = ''failed to diff '' @ kind @ '': '' @ errorString e"

subsection \<open>The build cache\<close>

text \<open>\<^verbatim>\<open>equality.Semantic.DeepEqual\<close> on two \<^verbatim>\<open>ResourceRequirements\<close>.\<close>

definition semanticResourcesEqual :: "ResourceRequirements \<Rightarrow> ResourceRequirements \<Rightarrow> bool" where
  "semanticResourcesEqual a b = (sameMap (Limits a) (Limits b) \<and> sameMap (Requests a) (Requests b))"

definition buildCacheSemanticEquals :: "PersistentVolumeClaim \<Rightarrow> PersistentVolumeClaim \<Rightarrow> bool" where
  "buildCacheSemanticEquals desiredBuildCache buildCache =
     (semanticResourcesEqual (Resources (pvcSpec desiredBuildCache)) (Resources (pvcSpec buildCache)) \<and>
      semanticMapEqual (Labels (pvcObjectMeta desiredBuildCache)) (Labels (pvcObjectMeta buildCache)))"

definition createBuildCache ::
  "Helpers \<Rightarrow> Client \<Rightarrow> FunctionBuild \<Rightarrow> effect list \<Rightarrow>
     PersistentVolumeClaim option result \<times> effect list" where
  "createBuildCache h c functionbuild eff =
     (case MakeBuildCache h functionbuild of
        Inl err \<Rightarrow> (Err err, eff)
      | Inr None \<Rightarrow> (Ok None, eff)
      | Inr (Some buildCache) \<Rightarrow>
          (let ns = Namespace (fbObjectMeta functionbuild);
               eff' = eff @ [CreatePVC ns buildCache]
           in case pvcCreate c ns buildCache of
                Inl err \<Rightarrow> (Err err, eff')
              | Inr created \<Rightarrow> (Ok (Some created), eff')))"

definition reconcileBuildCache ::
  "Helpers \<Rightarrow> Client \<Rightarrow> FunctionBuild \<Rightarrow> PersistentVolumeClaim \<Rightarrow> effect list \<Rightarrow>
     PersistentVolumeClaim option result \<times> effect list" where
  "reconcileBuildCache h c functionbuild buildCache eff =
     (let ns = Namespace (fbObjectMeta functionbuild)
      in case MakeBuildCache h functionbuild of
           Inl err \<Rightarrow> (Err err, eff)
         | Inr None \<Rightarrow>
             (let eff' = eff @ [DeletePVC ns (Name (pvcObjectMeta buildCache))
                                  (UID (pvcObjectMeta buildCache))]
              in case pvcDelete c ns (Name (pvcObjectMeta buildCache))
                        (UID (pvcObjectMeta buildCache)) of
                   Some err \<Rightarrow> (Err err, eff')
                 | None \<Rightarrow> (Ok None, eff'))
         | Inr (Some desiredBuildCache) \<Rightarrow>
             if buildCacheSemanticEquals desiredBuildCache buildCache
             then (Ok (Some buildCache), eff)
             else
               (case SafeDiffPVC c (pvcSpec desiredBuildCache) (pvcSpec buildCache) of
                  Inl err \<Rightarrow> (Err (DiffFailed ''PersistentVolumeClaim'' err), eff)
                | Inr diff \<Rightarrow>
                    (let existing = buildCache
                           \<lparr>pvcSpec := (pvcSpec buildCache)
                              \<lparr>Resources := Resources (pvcSpec desiredBuildCache)\<rparr>,
                            pvcObjectMeta := (pvcObjectMeta buildCache)
                              \<lparr>Labels := Labels (pvcObjectMeta desiredBuildCache)\<rparr>\<rparr>;
                         eff' = eff @ [UpdatePVC ns existing]
                     in case pvcUpdate c ns existing of
                          Inl err \<Rightarrow> (Err err, eff')
                        | Inr updated \<Rightarrow> (Ok (Some updated), eff'))))"

subsection \<open>The build\<close>

definition buildSemanticEquals :: "Build \<Rightarrow> Build \<Rightarrow> bool" where
  "buildSemanticEquals desiredBuild build =
     (buildSpec desiredBuild = buildSpec build \<and>
      semanticMapEqual (Labels (buildObjectMeta desiredBuild)) (Labels (buildObjectMeta build)))"

definition createBuild ::
  "Helpers \<Rightarrow> Client \<Rightarrow> FunctionBuild \<Rightarrow> effect list \<Rightarrow> Build option result \<times> effect list" where
  "createBuild h c functionbuild eff =
     (case MakeBuild h functionbuild of
        Inl err \<Rightarrow> (Err err, eff)
      | Inr None \<Rightarrow> (Ok None, eff)
      | Inr (Some build) \<Rightarrow>
          (let ns = Namespace (fbObjectMeta functionbuild);
               eff' = eff @ [CreateBuild ns build]
           in case knbuildCreate c ns build of
                Inl err \<Rightarrow> (Err err, eff')
              | Inr created \<Rightarrow> (Ok (Some created), eff')))"

text \<open>
  \<^verbatim>\<open>reconcileBuild\<close> reads \<^verbatim>\<open>desiredBuild.Spec\<close> without a \<^verbatim>\<open>nil\<close> check: a \<^verbatim>\<open>nil\<close>
  desired build is a panic.
\<close>

definition reconcileBuild ::
  "Helpers \<Rightarrow> Client \<Rightarrow> FunctionBuild \<Rightarrow> Build \<Rightarrow> effect list \<Rightarrow>
     Build option result \<times> effect list" where
  "reconcileBuild h c functionbuild build eff =
     (case MakeBuild h functionbuild of
        Inl err \<Rightarrow> (Err err, eff)
      | Inr None \<Rightarrow> (Panic, eff)
      | Inr (Some desiredBuild) \<Rightarrow>
          if buildSemanticEquals desiredBuild build then (Ok (Some build), eff)
          else
            (case SafeDiffBuild c (buildSpec desiredBuild) (buildSpec build) of
               Inl err \<Rightarrow> (Err (DiffFailed ''Build'' err), eff)
             | Inr diff \<Rightarrow>
                 (let ns = Namespace (fbObjectMeta functionbuild);
                      existing = build
                        \<lparr>buildSpec := buildSpec desiredBuild,
                         buildObjectMeta := (buildObjectMeta build)
                           \<lparr>Labels := Labels (buildObjectMeta desiredBuild)\<rparr>\<rparr>;
                      eff' = eff @ [UpdateBuild ns existing]
                  in case knbuildUpdate c ns existing of
                       Inl err \<Rightarrow> (Err err, eff')
                     | Inr updated \<Rightarrow> (Ok (Some updated), eff'))))"

subsection \<open>One pass over the children\<close>

text \<open>
  \<^verbatim>\<open>reconcile\<close> is one Go function; here it is cut at its blank lines. A part
  gives \<open>Inl\<close> where the Go function returns (with the error, the FunctionBuild as
  mutated so far and the effects so far), and \<open>Inr\<close> where it goes on.
  \<open>buildCachePart\<close> is the first \<^verbatim>\<open>if\<close> chain, on the PersistentVolumeClaim.
\<close>

type_synonym 'a part = "(unit result \<times> FunctionBuild \<times> effect list) + ('a \<times> FunctionBuild \<times> effect list)"

definition buildCachePart ::
  "Helpers \<Rightarrow> Client \<Rightarrow> FunctionBuild \<Rightarrow> effect list \<Rightarrow> PersistentVolumeClaim option part" where
  "buildCachePart h c functionbuild eff =
     (let buildCacheName = namesBuildCache h functionbuild
      in case pvcGet c (Namespace (fbObjectMeta functionbuild)) buildCacheName of
           Inl err \<Rightarrow>
             if IsNotFound err then
               (case createBuildCache h c functionbuild eff of
                  (Err err', eff') \<Rightarrow>
                    Inl (Err err', functionbuild,
                         eff' @ [Eventf ''Warning'' ''CreationFailed'' buildCacheName])
                | (Panic, eff') \<Rightarrow> Inl (Panic, functionbuild, eff')
                | (Ok buildCache, eff') \<Rightarrow>
                    Inr (buildCache, functionbuild,
                         if buildCache \<noteq> None
                         then eff' @ [Eventf ''Normal'' ''Created'' buildCacheName] else eff'))
             else Inl (Err err, functionbuild, eff)
         | Inr buildCache \<Rightarrow>
             if \<not> IsControlledBy (pvcObjectMeta buildCache) (fbObjectMeta functionbuild) then
               Inl (Err (DoesNotOwn (Name (fbObjectMeta functionbuild))
                           ''PersistentVolumeClaim'' buildCacheName),
                    functionbuild\<lparr>fbStatus :=
                      MarkBuildCacheNotOwned h buildCacheName (fbStatus functionbuild)\<rparr>,
                    eff)
             else
               (case reconcileBuildCache h c functionbuild buildCache eff of
                  (Err err, eff') \<Rightarrow> Inl (Err err, functionbuild, eff')
                | (Panic, eff') \<Rightarrow> Inl (Panic, functionbuild, eff')
                | (Ok buildCache', eff') \<Rightarrow>
                    Inr (buildCache', functionbuild,
                         if buildCache' = None
                         then eff' @ [Eventf ''Normal'' ''Deleted'' buildCacheName] else eff')))"

text \<open>The status update from the PersistentVolumeClaim that follows.\<close>

definition buildCacheStatus ::
  "Helpers \<Rightarrow> PersistentVolumeClaim option \<Rightarrow> FunctionBuild \<Rightarrow> FunctionBuild" where
  "buildCacheStatus h buildCache functionbuild =
     (case buildCache of
        None \<Rightarrow> functionbuild\<lparr>fbStatus := MarkBuildCacheNotUsed h (fbStatus functionbuild)\<rparr>
      | Some bc \<Rightarrow>
          functionbuild\<lparr>fbStatus :=
            PropagateBuildCacheStatus h (pvcStatus bc)
              ((fbStatus functionbuild)\<lparr>BuildCacheName := Name (pvcObjectMeta bc)\<rparr>)\<rparr>)"

text \<open>The second \<^verbatim>\<open>if\<close> chain, on the Build.\<close>

definition buildPart ::
  "Helpers \<Rightarrow> Client \<Rightarrow> FunctionBuild \<Rightarrow> effect list \<Rightarrow> Build option part" where
  "buildPart h c functionbuild eff =
     (let buildName = namesBuild h functionbuild
      in case knbuildGet c (Namespace (fbObjectMeta functionbuild)) buildName of
           Inl err \<Rightarrow>
             if IsNotFound err then
               (case createBuild h c functionbuild eff of
                  (Err err', eff') \<Rightarrow>
                    Inl (Err err', functionbuild,
                         eff' @ [Eventf ''Warning'' ''CreationFailed'' buildName])
                | (Panic, eff') \<Rightarrow> Inl (Panic, functionbuild, eff')
                | (Ok build, eff') \<Rightarrow>
                    Inr (build, functionbuild,
                         if build \<noteq> None
                         then eff' @ [Eventf ''Normal'' ''Created'' buildName] else eff'))
             else Inl (Err err, functionbuild, eff)
         | Inr build \<Rightarrow>
             if \<not> IsControlledBy (buildObjectMeta build) (fbObjectMeta functionbuild) then
               Inl (Err (DoesNotOwn (Name (fbObjectMeta functionbuild)) ''Build'' buildName),
                    functionbuild\<lparr>fbStatus :=
                      MarkBuildNotOwned h buildName (fbStatus functionbuild)\<rparr>,
                    eff)
             else
               (case reconcileBuild h c functionbuild build eff of
                  (Err err, eff') \<Rightarrow> Inl (Err err, functionbuild, eff')
                | (Panic, eff') \<Rightarrow> Inl (Panic, functionbuild, eff')
                | (Ok build', eff') \<Rightarrow> Inr (build', functionbuild, eff')))"

text \<open>The first two statements after the deletion check: defaults and conditions.\<close>

definition defaulted :: "Helpers \<Rightarrow> FunctionBuild \<Rightarrow> FunctionBuild" where
  "defaulted h functionbuild0 =
     (let functionbuild1 = SetDefaults h functionbuild0
      in functionbuild1\<lparr>fbStatus := InitializeConditions h (fbStatus functionbuild1)\<rparr>)"

text \<open>
  From the defaulting to \<^verbatim>\<open>PropagateBuildStatus\<close>: everything \<^verbatim>\<open>reconcile\<close> does
  after the deletion check and before it asks \<^verbatim>\<open>IsReady\<close>. A \<^verbatim>\<open>nil\<close> build at
  \<^verbatim>\<open>build.Name\<close> is a panic.
\<close>

definition reconcileChildren ::
  "Helpers \<Rightarrow> Client \<Rightarrow> FunctionBuild \<Rightarrow> effect list \<Rightarrow> Build part" where
  "reconcileChildren h c functionbuild0 eff =
     (let functionbuild2 = defaulted h functionbuild0
      in case buildCachePart h c functionbuild2 eff of
           Inl r \<Rightarrow> Inl r
         | Inr (buildCache, functionbuild3, eff1) \<Rightarrow>
             (case buildPart h c (buildCacheStatus h buildCache functionbuild3) eff1 of
                Inl r \<Rightarrow> Inl r
              | Inr (None, functionbuild4, eff2) \<Rightarrow> Inl (Panic, functionbuild4, eff2)
              | Inr (Some build, functionbuild4, eff2) \<Rightarrow>
                  Inr (build,
                       functionbuild4\<lparr>fbStatus :=
                         PropagateBuildStatus h (buildStatus build)
                           ((fbStatus functionbuild4)\<lparr>BuildName := Name (buildObjectMeta build)\<rparr>)\<rparr>,
                       eff2)))"

text \<open>The image resolution and the observed generation, the end of \<^verbatim>\<open>reconcile\<close>.\<close>

definition skipRegistries :: "string set" where
  "skipRegistries = {''ko.local'', ''dev.local''}"

definition unableToFetch :: "string \<Rightarrow> error \<Rightarrow> string" where
  "unableToFetch ref err = ''Unable to fetch image \"'' @ ref @ ''\": '' @ errorString err"

definition resolveImage ::
  "Helpers \<Rightarrow> Client \<Rightarrow> Build \<Rightarrow> FunctionBuild \<Rightarrow> effect list \<Rightarrow>
     unit result \<times> FunctionBuild \<times> effect list" where
  "resolveImage h c build functionbuild eff =
     (if IsReady h (fbStatus functionbuild) then
        (let opt = (Namespace (fbObjectMeta functionbuild), ServiceAccountName (buildSpec build));
             eff' = eff @ [ResolveCall (Image (fbSpec functionbuild)) opt skipRegistries]
         in case Resolve c (Image (fbSpec functionbuild)) opt skipRegistries of
              Inl err \<Rightarrow>
                (Err err,
                 functionbuild\<lparr>fbStatus :=
                   MarkImageMissing h (unableToFetch (Image (fbSpec functionbuild)) err)
                     (fbStatus functionbuild)\<rparr>,
                 eff')
            | Inr digest \<Rightarrow>
                (Ok (),
                 functionbuild\<lparr>fbStatus := (fbStatus functionbuild)
                   \<lparr>LatestImage := digest,
                    ObservedGeneration := Generation (fbObjectMeta functionbuild)\<rparr>\<rparr>,
                 eff'))
      else
        (Ok (),
         functionbuild\<lparr>fbStatus := (fbStatus functionbuild)
           \<lparr>ObservedGeneration := Generation (fbObjectMeta functionbuild)\<rparr>\<rparr>,
         eff))"

definition reconcile ::
  "Helpers \<Rightarrow> Client \<Rightarrow> FunctionBuild \<Rightarrow> effect list \<Rightarrow>
     unit result \<times> FunctionBuild \<times> effect list" where
  "reconcile h c functionbuild eff =
     (if DeletionTimestamp (fbObjectMeta functionbuild) \<noteq> None then (Ok (), functionbuild, eff)
      else
        (case reconcileChildren h c functionbuild eff of
           Inl r \<Rightarrow> r
         | Inr (build, functionbuild', eff') \<Rightarrow> resolveImage h c build functionbuild' eff'))"

subsection \<open>The driver\<close>

text \<open>
  \<^verbatim>\<open>updateStatus\<close> reads the FunctionBuild again, writes nothing when the status
  read is already the desired one by \<^verbatim>\<open>reflect.DeepEqual\<close>, and otherwise sends
  the object read with the desired status. The log line about the FunctionBuild
  becoming ready is not an effect.
\<close>

definition updateStatus ::
  "Client \<Rightarrow> FunctionBuild \<Rightarrow> effect list \<Rightarrow> FunctionBuild result \<times> effect list" where
  "updateStatus c desired eff =
     (case functionbuildGetAgain c (Namespace (fbObjectMeta desired)) (Name (fbObjectMeta desired)) of
        Inl err \<Rightarrow> (Err err, eff)
      | Inr functionbuild \<Rightarrow>
          if reflectStatusEqual (fbStatus functionbuild) (fbStatus desired)
          then (Ok functionbuild, eff)
          else
            (let existing = functionbuild\<lparr>fbStatus := fbStatus desired\<rparr>;
                 ns = Namespace (fbObjectMeta desired);
                 eff' = eff @ [UpdateStatusCall ns existing]
             in case UpdateStatus c ns existing of
                  Inl err \<Rightarrow> (Err err, eff')
                | Inr fb \<Rightarrow> (Ok fb, eff')))"

text \<open>
  \<^verbatim>\<open>Reconcile\<close>. A panic of \<^verbatim>\<open>reconcile\<close> leaves the function at once. The
  fetched status and the computed one are compared with
  \<^verbatim>\<open>equality.Semantic.DeepEqual\<close>; \<^verbatim>\<open>updateStatus\<close> is called only when they
  differ.
\<close>

definition Reconcile ::
  "Helpers \<Rightarrow> Client \<Rightarrow> string \<Rightarrow> effect list \<Rightarrow> unit result \<times> effect list" where
  "Reconcile h c key eff =
     (case SplitMetaNamespaceKey c key of
        Inl err \<Rightarrow> (Ok (), eff)
      | Inr (namespace, name) \<Rightarrow>
          (case functionbuildGet c namespace name of
             Inl err \<Rightarrow> if IsNotFound err then (Ok (), eff) else (Err err, eff)
           | Inr original \<Rightarrow>
               (case reconcile h c original eff of
                  (Panic, functionbuild, eff1) \<Rightarrow> (Panic, eff1)
                | (err, functionbuild, eff1) \<Rightarrow>
                    if semanticStatusEqual (fbStatus original) (fbStatus functionbuild)
                    then (err, eff1)
                    else
                      (case updateStatus c functionbuild eff1 of
                         (Err uErr, eff2) \<Rightarrow>
                           (Err uErr,
                            eff2 @ [Eventf ''Warning'' ''UpdateFailed'' (Name (fbObjectMeta functionbuild))])
                       | (Panic, eff2) \<Rightarrow> (Panic, eff2)
                       | (Ok updated, eff2) \<Rightarrow>
                           if err = Ok ()
                           then (err, eff2 @ [Eventf ''Normal'' ''Updated''
                                               (Name (fbObjectMeta functionbuild))])
                           else (err, eff2)))))"

subsection \<open>Kinds of effects\<close>

fun touchesPVC :: "effect \<Rightarrow> bool" where
  "touchesPVC (CreatePVC ns x) = True"
| "touchesPVC (UpdatePVC ns x) = True"
| "touchesPVC (DeletePVC ns n u) = True"
| "touchesPVC e = False"

fun touchesBuild :: "effect \<Rightarrow> bool" where
  "touchesBuild (CreateBuild ns x) = True"
| "touchesBuild (UpdateBuild ns x) = True"
| "touchesBuild e = False"

fun writesStatus :: "effect \<Rightarrow> bool" where
  "writesStatus (UpdateStatusCall ns x) = True"
| "writesStatus e = False"

fun callsResolver :: "effect \<Rightarrow> bool" where
  "callsResolver (ResolveCall i opt skip) = True"
| "callsResolver e = False"

fun isEvent :: "effect \<Rightarrow> bool" where
  "isEvent (Eventf t r n) = True"
| "isEvent e = False"

text \<open>\<open>appends P eff eff'\<close>: \<open>eff'\<close> is \<open>eff\<close> followed by effects that all satisfy \<open>P\<close>.\<close>

definition appends :: "(effect \<Rightarrow> bool) \<Rightarrow> effect list \<Rightarrow> effect list \<Rightarrow> bool" where
  "appends P eff eff' = (\<exists>new. eff' = eff @ new \<and> (\<forall>e\<in>set new. P e))"

section \<open>Example inputs\<close>

text \<open>
  Concrete objects for the closed instances below. The Deployer objects follow
  the test table of the Deployer controller.
\<close>

definition exampleTemplate :: PodTemplateSpec where
  "exampleTemplate =
     \<lparr>templateObjectMeta = zeroObjectMeta\<lparr>Labels := Some [(''app'', ''hello'')]\<rparr>,
      templateSpec = \<lparr>Containers = [\<lparr>containerName = ''user'', containerImage = ''img''\<rparr>],
                      podServiceAccountName = ''sa''\<rparr>\<rparr>"

definition exampleDeployerSpec :: DeployerSpec where
  "exampleDeployerSpec = \<lparr>Template = Some exampleTemplate, IngressPolicy = ''External''\<rparr>"

definition deployerDeps :: "string list" where
  "deployerDeps = [''ConfigurationReady'', ''RouteReady'']"

definition routeNotReady :: "Condition list" where
  "routeNotReady =
     [\<lparr>Type = ''ConfigurationReady'', Status = ConditionTrue, Reason = [], Message = []\<rparr>,
      \<lparr>Type = ''RouteReady'', Status = ConditionFalse, Reason = ''TestReason'',
       Message = ''a human readable message''\<rparr>]"

definition allReady :: "Condition list" where
  "allReady =
     [\<lparr>Type = ''ConfigurationReady'', Status = ConditionTrue, Reason = [], Message = []\<rparr>,
      \<lparr>Type = ''RouteReady'', Status = ConditionTrue, Reason = [], Message = []\<rparr>]"

definition testDeployer :: ObjectMeta where
  "testDeployer = zeroObjectMeta\<lparr>Name := ''test-deployer'', Namespace := ''test-namespace'',
     UID := ''deployer-uid''\<rparr>"

definition controlledByTestDeployer :: "OwnerReference list" where
  "controlledByTestDeployer =
     [\<lparr>refKind = ''Deployer'', refName = ''test-deployer'', refUID = ''deployer-uid'',
       Controller = Some True\<rparr>]"

definition testConfigurationCreate :: ChildObject where
  "testConfigurationCreate =
     \<lparr>childObjectMeta = zeroObjectMeta\<lparr>Namespace := ''test-namespace'',
        OwnerReferences := controlledByTestDeployer\<rparr>,
      childSpec = ''image''\<rparr>"

definition extraConfiguration1 :: ChildObject where
  "extraConfiguration1 =
     \<lparr>childObjectMeta = zeroObjectMeta\<lparr>Name := ''extra-1'', Namespace := ''test-namespace'',
        CreationTimestamp := 1, OwnerReferences := controlledByTestDeployer\<rparr>,
      childSpec = ''image''\<rparr>"

definition extraConfiguration2 :: ChildObject where
  "extraConfiguration2 =
     \<lparr>childObjectMeta = zeroObjectMeta\<lparr>Name := ''extra-2'', Namespace := ''test-namespace'',
        CreationTimestamp := 2, OwnerReferences := controlledByTestDeployer\<rparr>,
      childSpec = ''image''\<rparr>"

definition twoExtras :: Cluster where
  "twoExtras = \<lparr>children = [extraConfiguration1, extraConfiguration2], writes = []\<rparr>"

definition canonicalConfiguration :: ChildObject where
  "canonicalConfiguration =
     \<lparr>childObjectMeta = zeroObjectMeta\<lparr>Name := ''test-deployer-001'',
        Namespace := ''test-namespace'', CreationTimestamp := 3,
        OwnerReferences := controlledByTestDeployer\<rparr>,
      childSpec = ''image''\<rparr>"

definition canonicalAndTwoExtras :: Cluster where
  "canonicalAndTwoExtras =
     \<lparr>children = [extraConfiguration1, canonicalConfiguration, extraConfiguration2],
      writes = []\<rparr>"

definition noFailure :: Reactors where
  "noFailure = \<lparr>failCreate = None, failUpdate = None, failDelete = (\<lambda>n. None)\<rparr>"

definition deleteFails :: Reactors where
  "deleteFails = noFailure\<lparr>failDelete := (\<lambda>n. Some (OtherError ''induced failure''))\<rparr>"

definition secondDeleteFails :: Reactors where
  "secondDeleteFails = noFailure
     \<lparr>failDelete := (\<lambda>n. if n = ''extra-2'' then Some (OtherError ''induced failure'') else None)\<rparr>"

text \<open>
  An instance of the helpers of the FunctionBuild reconciler, built on the
  condition set above, and a cluster with nothing in it where every call
  succeeds. The other clusters differ from it in one or two answers.
\<close>

definition fbDeps :: "string list" where
  "fbDeps = [''BuildCacheReady'', ''BuildSucceeded'']"

definition onConditions ::
  "(Condition list \<Rightarrow> Condition list) \<Rightarrow> FunctionBuildStatus \<Rightarrow> FunctionBuildStatus" where
  "onConditions f st = st\<lparr>Conditions := Some (f (elements (Conditions st)))\<rparr>"

definition controlledBy :: "FunctionBuild \<Rightarrow> OwnerReference list" where
  "controlledBy fb =
     [\<lparr>refKind = ''FunctionBuild'', refName = Name (fbObjectMeta fb),
       refUID = UID (fbObjectMeta fb), Controller = Some True\<rparr>]"

definition desiredCache :: "FunctionBuild \<Rightarrow> PersistentVolumeClaim" where
  "desiredCache fb =
     \<lparr>pvcObjectMeta = zeroObjectMeta
        \<lparr>Name := ''cache-'' @ Name (fbObjectMeta fb), Namespace := Namespace (fbObjectMeta fb),
         Labels := Some [(''functionbuild'', Name (fbObjectMeta fb))],
         OwnerReferences := controlledBy fb\<rparr>,
      pvcSpec = \<lparr>Resources = \<lparr>Limits = [], Requests = [(''storage'', 8000)]\<rparr>,
                 AccessModes = [''ReadWriteOnce''], StorageClassName = None\<rparr>,
      pvcStatus = \<lparr>Phase = []\<rparr>\<rparr>"

definition desiredBuild :: "FunctionBuild \<Rightarrow> Build" where
  "desiredBuild fb =
     \<lparr>buildObjectMeta = zeroObjectMeta
        \<lparr>Name := ''build-'' @ Name (fbObjectMeta fb), Namespace := Namespace (fbObjectMeta fb),
         Labels := Some [(''functionbuild'', Name (fbObjectMeta fb))],
         OwnerReferences := controlledBy fb\<rparr>,
      buildSpec = \<lparr>ServiceAccountName = ''riff-build'', Steps = []\<rparr>,
      buildStatus = \<lparr>buildConditions = []\<rparr>\<rparr>"

definition exampleHelpers :: Helpers where
  "exampleHelpers =
     \<lparr>SetDefaults = (\<lambda>fb. fb),
      InitializeConditions = onConditions (initializeConditions fbDeps),
      MarkBuildCacheNotOwned = (\<lambda>name. onConditions
        (markNotOwned fbDeps ''BuildCacheReady'' ''PersistentVolumeClaim'' ''FunctionBuild'' name)),
      MarkBuildCacheNotUsed = onConditions (markCondition fbDeps
        \<lparr>Type = ''BuildCacheReady'', Status = ConditionTrue, Reason = ''NotUsed'', Message = []\<rparr>),
      PropagateBuildCacheStatus = (\<lambda>ps. onConditions (markCondition fbDeps
        \<lparr>Type = ''BuildCacheReady'',
         Status = (if Phase ps = ''Bound'' then ConditionTrue else ConditionUnknown),
         Reason = Phase ps, Message = []\<rparr>)),
      MarkBuildNotOwned = (\<lambda>name. onConditions
        (markNotOwned fbDeps ''BuildSucceeded'' ''Build'' ''FunctionBuild'' name)),
      PropagateBuildStatus = (\<lambda>bs. onConditions
        (propagateChildStatus fbDeps ''BuildSucceeded'' (buildConditions bs))),
      IsReady = (\<lambda>st. isReady (elements (Conditions st))),
      MarkImageMissing = (\<lambda>msg. onConditions (markCondition fbDeps
        \<lparr>Type = ''BuildSucceeded'', Status = ConditionFalse, Reason = ''ImageMissing'',
         Message = msg\<rparr>)),
      namesBuildCache = (\<lambda>fb. ''cache-'' @ Name (fbObjectMeta fb)),
      namesBuild = (\<lambda>fb. ''build-'' @ Name (fbObjectMeta fb)),
      MakeBuildCache = (\<lambda>fb. Inr (Some (desiredCache fb))),
      MakeBuild = (\<lambda>fb. Inr (Some (desiredBuild fb)))\<rparr>"

definition emptyCluster :: Client where
  "emptyCluster =
     \<lparr>SplitMetaNamespaceKey =
        (\<lambda>key. if key = ''ns/fb'' then Inr (''ns'', ''fb'')
               else Inl (OtherError ''unexpected key format'')),
      functionbuildGet = (\<lambda>ns n. Inl NotFound),
      functionbuildGetAgain = (\<lambda>ns n. Inl NotFound),
      pvcGet = (\<lambda>ns n. Inl NotFound),
      knbuildGet = (\<lambda>ns n. Inl NotFound),
      pvcCreate = (\<lambda>ns x. Inr x),
      pvcUpdate = (\<lambda>ns x. Inr x),
      pvcDelete = (\<lambda>ns n u. None),
      knbuildCreate = (\<lambda>ns x. Inr x),
      knbuildUpdate = (\<lambda>ns x. Inr x),
      UpdateStatus = (\<lambda>ns x. Inr x),
      Resolve = (\<lambda>i opt skip. Inr (i @ ''@sha256:cf8b'')),
      SafeDiffPVC = (\<lambda>a b. Inr ''diff''),
      SafeDiffBuild = (\<lambda>a b. Inr ''diff'')\<rparr>"

definition zeroStatus :: FunctionBuildStatus where
  "zeroStatus =
     \<lparr>Conditions = None, BuildCacheName = [], BuildName = [], LatestImage = [],
      ObservedGeneration = 0\<rparr>"

definition testFunctionBuild :: FunctionBuild where
  "testFunctionBuild =
     \<lparr>fbObjectMeta = zeroObjectMeta
        \<lparr>Name := ''fb'', Namespace := ''ns'', UID := ''fb-uid'', Generation := 1\<rparr>,
      fbSpec = \<lparr>Image = ''registry/img''\<rparr>,
      fbStatus = zeroStatus\<rparr>"

definition deletedFunctionBuild :: FunctionBuild where
  "deletedFunctionBuild =
     testFunctionBuild\<lparr>fbObjectMeta := (fbObjectMeta testFunctionBuild)
       \<lparr>DeletionTimestamp := Some 1\<rparr>\<rparr>"

definition deletedOwnerCluster :: Client where
  "deletedOwnerCluster = emptyCluster\<lparr>functionbuildGet := (\<lambda>ns n. Inr deletedFunctionBuild)\<rparr>"

text \<open>
  An observed build cache that the FunctionBuild owns, with storage requests
  and labels that are not the desired ones, and with an annotation and an
  access mode of its own.
\<close>

definition observedCache :: PersistentVolumeClaim where
  "observedCache =
     \<lparr>pvcObjectMeta = (pvcObjectMeta (desiredCache testFunctionBuild))
        \<lparr>UID := ''pvc-uid'', Labels := None, Annotations := Some [(''bound-by'', ''controller'')]\<rparr>,
      pvcSpec = \<lparr>Resources = \<lparr>Limits = [], Requests = []\<rparr>,
                 AccessModes = [''ReadWriteMany''], StorageClassName = Some ''fast''\<rparr>,
      pvcStatus = \<lparr>Phase = ''Bound''\<rparr>\<rparr>"

definition observedBuild :: Build where
  "observedBuild =
     \<lparr>buildObjectMeta = (buildObjectMeta (desiredBuild testFunctionBuild))
        \<lparr>UID := ''build-uid'', Annotations := Some [(''seen-by'', ''operator'')]\<rparr>,
      buildSpec = \<lparr>ServiceAccountName = ''default'', Steps = []\<rparr>,
      buildStatus = \<lparr>buildConditions =
        [\<lparr>Type = ''Ready'', Status = ConditionTrue, Reason = [], Message = []\<rparr>]\<rparr>\<rparr>"

text \<open>
  Clusters for the FunctionBuild reconciler. In each, the key \<open>ns/fb\<close> fetches
  \<open>testFunctionBuild\<close>, whose status is still empty.
\<close>

definition ownerFetched :: Client where
  "ownerFetched = emptyCluster
     \<lparr>functionbuildGet := (\<lambda>ns n. Inr testFunctionBuild),
      functionbuildGetAgain := (\<lambda>ns n. Inr testFunctionBuild)\<rparr>"

definition foreignCache :: PersistentVolumeClaim where
  "foreignCache = observedCache
     \<lparr>pvcObjectMeta := (pvcObjectMeta observedCache)\<lparr>OwnerReferences := []\<rparr>\<rparr>"

definition foreignCacheCluster :: Client where
  "foreignCacheCluster = ownerFetched\<lparr>pvcGet := (\<lambda>ns n. Inr foreignCache)\<rparr>"

definition foreignBuild :: Build where
  "foreignBuild = observedBuild
     \<lparr>buildObjectMeta := (buildObjectMeta observedBuild)\<lparr>OwnerReferences := []\<rparr>\<rparr>"

definition foreignBuildCluster :: Client where
  "foreignBuildCluster = ownerFetched\<lparr>knbuildGet := (\<lambda>ns n. Inr foreignBuild)\<rparr>"

definition boundCache :: PersistentVolumeClaim where
  "boundCache = (desiredCache testFunctionBuild)\<lparr>pvcStatus := \<lparr>Phase = ''Bound''\<rparr>\<rparr>"

definition readyBuild :: Build where
  "readyBuild = (desiredBuild testFunctionBuild)
     \<lparr>buildStatus := \<lparr>buildConditions =
        [\<lparr>Type = ''Ready'', Status = ConditionTrue, Reason = [], Message = []\<rparr>]\<rparr>\<rparr>"

definition readyCluster :: Client where
  "readyCluster = ownerFetched
     \<lparr>pvcGet := (\<lambda>ns n. Inr boundCache), knbuildGet := (\<lambda>ns n. Inr readyBuild)\<rparr>"

definition resolveFails :: Client where
  "resolveFails = readyCluster\<lparr>Resolve := (\<lambda>i opt skip. Inl (OtherError ''unauthorized''))\<rparr>"

definition statusWriteFails :: Client where
  "statusWriteFails = foreignCacheCluster
     \<lparr>UpdateStatus := (\<lambda>ns x. Inl (OtherError ''the object has been modified''))\<rparr>"

text \<open>The statuses that the reconciler computes in these clusters.\<close>

definition cacheNotOwnedStatus :: FunctionBuildStatus where
  "cacheNotOwnedStatus = zeroStatus
     \<lparr>Conditions :=
        Some [\<lparr>Type = ''BuildCacheReady'', Status = ConditionFalse, Reason = ''NotOwned'',
          Message = notOwnedMessage ''PersistentVolumeClaim'' ''cache-fb'' ''FunctionBuild''\<rparr>,
         \<lparr>Type = ''BuildSucceeded'', Status = ConditionUnknown, Reason = [], Message = []\<rparr>,
         \<lparr>Type = ''Ready'', Status = ConditionFalse, Reason = ''NotOwned'',
          Message = notOwnedMessage ''PersistentVolumeClaim'' ''cache-fb'' ''FunctionBuild''\<rparr>]\<rparr>"

definition childrenReadyStatus :: FunctionBuildStatus where
  "childrenReadyStatus =
     \<lparr>Conditions =
        Some [\<lparr>Type = ''BuildCacheReady'', Status = ConditionTrue, Reason = ''Bound'', Message = []\<rparr>,
         \<lparr>Type = ''BuildSucceeded'', Status = ConditionTrue, Reason = [], Message = []\<rparr>,
         \<lparr>Type = ''Ready'', Status = ConditionTrue, Reason = [], Message = []\<rparr>],
      BuildCacheName = ''cache-fb'', BuildName = ''build-fb'', LatestImage = [],
      ObservedGeneration = 0\<rparr>"

definition resolvedStatus :: FunctionBuildStatus where
  "resolvedStatus = childrenReadyStatus
     \<lparr>LatestImage := ''registry/img@sha256:cf8b'', ObservedGeneration := 1\<rparr>"

definition imageMissingStatus :: FunctionBuildStatus where
  "imageMissingStatus = childrenReadyStatus
     \<lparr>Conditions :=
        Some [\<lparr>Type = ''BuildCacheReady'', Status = ConditionTrue, Reason = ''Bound'', Message = []\<rparr>,
         \<lparr>Type = ''BuildSucceeded'', Status = ConditionFalse, Reason = ''ImageMissing'',
          Message = unableToFetch ''registry/img'' (OtherError ''unauthorized'')\<rparr>,
         \<lparr>Type = ''Ready'', Status = ConditionFalse, Reason = ''ImageMissing'',
          Message = unableToFetch ''registry/img'' (OtherError ''unauthorized'')\<rparr>]\<rparr>"

text \<open>
  The informer cache has caught up with the status that an earlier cycle wrote:
  the first read is still the stale object, the second read has the status.
\<close>

definition caughtUpCluster :: Client where
  "caughtUpCluster = foreignCacheCluster
     \<lparr>functionbuildGetAgain := (\<lambda>ns n. Inr (testFunctionBuild\<lparr>fbStatus := cacheNotOwnedStatus\<rparr>))\<rparr>"

text \<open>The same for the status that a cycle computes when the resolver fails.\<close>

definition caughtUpResolveFails :: Client where
  "caughtUpResolveFails = resolveFails
     \<lparr>functionbuildGetAgain := (\<lambda>ns n. Inr (testFunctionBuild\<lparr>fbStatus := imageMissingStatus\<rparr>))\<rparr>"

text \<open>The cluster after a cycle on \<open>readyCluster\<close> has written its status.\<close>

definition convergedCluster :: Client where
  "convergedCluster = readyCluster
     \<lparr>functionbuildGet := (\<lambda>ns n. Inr (testFunctionBuild\<lparr>fbStatus := resolvedStatus\<rparr>)),
      functionbuildGetAgain := (\<lambda>ns n. Inr (testFunctionBuild\<lparr>fbStatus := resolvedStatus\<rparr>))\<rparr>"

definition buildNotOwnedStatus :: FunctionBuildStatus where
  "buildNotOwnedStatus = zeroStatus
     \<lparr>Conditions :=
        Some [\<lparr>Type = ''BuildCacheReady'', Status = ConditionUnknown, Reason = [], Message = []\<rparr>,
         \<lparr>Type = ''BuildSucceeded'', Status = ConditionFalse, Reason = ''NotOwned'',
          Message = notOwnedMessage ''Build'' ''build-fb'' ''FunctionBuild''\<rparr>,
         \<lparr>Type = ''Ready'', Status = ConditionFalse, Reason = ''NotOwned'',
          Message = notOwnedMessage ''Build'' ''build-fb'' ''FunctionBuild''\<rparr>],
      BuildCacheName := ''cache-fb''\<rparr>"

text \<open>
  Helpers of a status that declares no condition: \<^verbatim>\<open>InitializeConditions\<close> makes
  the slice of conditions an empty one and the marking methods leave the
  status as it is. With them the status computed on \<open>readyCluster\<close> is
  \<open>emptySliceStatus\<close>; in \<open>nilSliceCluster\<close> the second read has that status with a
  \<^verbatim>\<open>nil\<close> slice of conditions.
\<close>

definition silentHelpers :: Helpers where
  "silentHelpers = exampleHelpers
     \<lparr>InitializeConditions := onConditions (\<lambda>cs. cs),
      MarkBuildCacheNotOwned := (\<lambda>name st. st),
      MarkBuildCacheNotUsed := (\<lambda>st. st),
      PropagateBuildCacheStatus := (\<lambda>ps st. st),
      MarkBuildNotOwned := (\<lambda>name st. st),
      PropagateBuildStatus := (\<lambda>bs st. st),
      MarkImageMissing := (\<lambda>msg st. st)\<rparr>"

definition emptySliceStatus :: FunctionBuildStatus where
  "emptySliceStatus =
     \<lparr>Conditions = Some [], BuildCacheName = ''cache-fb'', BuildName = ''build-fb'',
      LatestImage = [], ObservedGeneration = 1\<rparr>"

definition nilSliceStatus :: FunctionBuildStatus where
  "nilSliceStatus = emptySliceStatus\<lparr>Conditions := None\<rparr>"

definition nilSliceCluster :: Client where
  "nilSliceCluster = readyCluster
     \<lparr>functionbuildGetAgain := (\<lambda>ns n. Inr (testFunctionBuild\<lparr>fbStatus := nilSliceStatus\<rparr>))\<rparr>"

definition updatedCache :: PersistentVolumeClaim where
  "updatedCache = observedCache
     \<lparr>pvcSpec := (pvcSpec observedCache)
        \<lparr>Resources := \<lparr>Limits = [], Requests = [(''storage'', 8000)]\<rparr>\<rparr>,
      pvcObjectMeta := (pvcObjectMeta observedCache)
        \<lparr>Labels := Some [(''functionbuild'', ''fb'')]\<rparr>\<rparr>"

definition updatedBuild :: Build where
  "updatedBuild = observedBuild
     \<lparr>buildSpec := \<lparr>ServiceAccountName = ''riff-build'', Steps = []\<rparr>\<rparr>"

section \<open>Properties of Deployer defaulting\<close>

lemma defaultTemplate_idem: "defaultTemplate (defaultTemplate t) = defaultTemplate t"
  by (simp add: defaultTemplate_def Let_def)

lemma defaultTemplate_Annotations:
  "Annotations (templateObjectMeta (defaultTemplate t)) =
     (if Annotations (templateObjectMeta t) = None then Some []
      else Annotations (templateObjectMeta t))"
  by (simp add: defaultTemplate_def Let_def)

lemma defaultTemplate_Labels:
  "Labels (templateObjectMeta (defaultTemplate t)) =
     (if Labels (templateObjectMeta t) = None then Some []
      else Labels (templateObjectMeta t))"
  by (simp add: defaultTemplate_def Let_def)

lemma defaultTemplate_Containers:
  "Containers (templateSpec (defaultTemplate t)) =
     (if Containers (templateSpec t) = [] then [zeroContainer]
      else Containers (templateSpec t))"
  by (simp add: defaultTemplate_def Let_def)

lemma defaultTemplate_frame:
  "defaultTemplate t =
     t\<lparr>templateObjectMeta := (templateObjectMeta t)
          \<lparr>Labels := Labels (templateObjectMeta (defaultTemplate t)),
           Annotations := Annotations (templateObjectMeta (defaultTemplate t))\<rparr>,
       templateSpec := (templateSpec t)
          \<lparr>Containers := Containers (templateSpec (defaultTemplate t))\<rparr>\<rparr>"
  by (simp add: defaultTemplate_def Let_def)

lemma Default_idem:
  fixes s :: "'a DeployerSpec_scheme"
  shows "Default cl (Default cl s) = Default cl s"
  by (simp add: Default_def Let_def defaultTemplate_idem)

lemma Default_Template:
  fixes s :: "'a DeployerSpec_scheme"
  shows "Template (Default cl s) =
     Some (defaultTemplate (case Template s of None \<Rightarrow> zeroPodTemplateSpec | Some t \<Rightarrow> t))"
  by (simp add: Default_def Let_def)

lemma Default_IngressPolicy:
  fixes s :: "'a DeployerSpec_scheme"
  shows "IngressPolicy (Default cl s) = (if IngressPolicy s = [] then cl else IngressPolicy s)"
  by (simp add: Default_def Let_def)

lemma Default_frame:
  fixes s :: "'a DeployerSpec_scheme"
  shows "Default cl s =
     s\<lparr>Template := Template (Default cl s), IngressPolicy := IngressPolicy (Default cl s)\<rparr>"
  by (simp add: Default_def Let_def)

text \<open>
  C10. \<^verbatim>\<open>DeployerSpec.Default\<close> is idempotent and non-destructive. Applying it twice
  gives what applying it once gives. The result differs from the input in at
  most the template and the ingress policy (every other field of the spec is
  kept). An ingress policy that is not the empty string is kept, an empty one
  becomes \<^verbatim>\<open>IngressPolicyClusterLocal\<close>. A \<^verbatim>\<open>nil\<close> template becomes the defaulted
  zero template. A template that is present keeps every field but its
  annotations, labels and containers; annotations and labels that are not \<^verbatim>\<open>nil\<close>
  and a container list that is not empty are kept as they are, a \<^verbatim>\<open>nil\<close> map
  becomes the empty map and an empty container list becomes the list of one
  zero container.
\<close>

theorem Default_idempotent_nondestructive:
  fixes s :: "'a DeployerSpec_scheme"
  shows "Default cl (Default cl s) = Default cl s \<and>
    Default cl s =
      s\<lparr>Template := Template (Default cl s), IngressPolicy := IngressPolicy (Default cl s)\<rparr> \<and>
    (IngressPolicy s \<noteq> [] \<longrightarrow> IngressPolicy (Default cl s) = IngressPolicy s) \<and>
    (IngressPolicy s = [] \<longrightarrow> IngressPolicy (Default cl s) = cl) \<and>
    (Template s = None \<longrightarrow>
       Template (Default cl s) = Some (defaultTemplate zeroPodTemplateSpec)) \<and>
    (\<forall>t. Template s = Some t \<longrightarrow>
       (\<exists>t'. Template (Default cl s) = Some t' \<and>
          t' = t\<lparr>templateObjectMeta := (templateObjectMeta t)
                    \<lparr>Labels := Labels (templateObjectMeta t'),
                     Annotations := Annotations (templateObjectMeta t')\<rparr>,
                 templateSpec := (templateSpec t)
                    \<lparr>Containers := Containers (templateSpec t')\<rparr>\<rparr> \<and>
          Annotations (templateObjectMeta t') =
            (if Annotations (templateObjectMeta t) = None then Some []
             else Annotations (templateObjectMeta t)) \<and>
          Labels (templateObjectMeta t') =
            (if Labels (templateObjectMeta t) = None then Some []
             else Labels (templateObjectMeta t)) \<and>
          Containers (templateSpec t') =
            (if Containers (templateSpec t) = [] then [zeroContainer]
             else Containers (templateSpec t))))"
proof (intro conjI allI impI)
  show "Default cl (Default cl s) = Default cl s"
    by (rule Default_idem)
  show "Default cl s =
      s\<lparr>Template := Template (Default cl s), IngressPolicy := IngressPolicy (Default cl s)\<rparr>"
    by (rule Default_frame)
  show "IngressPolicy s \<noteq> [] \<Longrightarrow> IngressPolicy (Default cl s) = IngressPolicy s"
    by (simp add: Default_IngressPolicy)
  show "IngressPolicy s = [] \<Longrightarrow> IngressPolicy (Default cl s) = cl"
    by (simp add: Default_IngressPolicy)
  show "Template s = None \<Longrightarrow>
          Template (Default cl s) = Some (defaultTemplate zeroPodTemplateSpec)"
    by (simp add: Default_Template)
next
  fix t
  assume t: "Template s = Some t"
  have 1: "Template (Default cl s) = Some (defaultTemplate t)"
    using t by (simp add: Default_Template)
  show "\<exists>t'. Template (Default cl s) = Some t' \<and>
          t' = t\<lparr>templateObjectMeta := (templateObjectMeta t)
                    \<lparr>Labels := Labels (templateObjectMeta t'),
                     Annotations := Annotations (templateObjectMeta t')\<rparr>,
                 templateSpec := (templateSpec t)
                    \<lparr>Containers := Containers (templateSpec t')\<rparr>\<rparr> \<and>
          Annotations (templateObjectMeta t') =
            (if Annotations (templateObjectMeta t) = None then Some []
             else Annotations (templateObjectMeta t)) \<and>
          Labels (templateObjectMeta t') =
            (if Labels (templateObjectMeta t) = None then Some []
             else Labels (templateObjectMeta t)) \<and>
          Containers (templateSpec t') =
            (if Containers (templateSpec t) = [] then [zeroContainer]
             else Containers (templateSpec t))"
    unfolding 1
    using defaultTemplate_frame [of t] defaultTemplate_Annotations [of t]
      defaultTemplate_Labels [of t] defaultTemplate_Containers [of t]
    by blast
qed

theorem Default_idempotent_nondestructive_witness:
  "IngressPolicy exampleDeployerSpec \<noteq> [] \<and>
   Template exampleDeployerSpec = Some exampleTemplate \<and>
   Default ''ClusterLocal'' (Default ''ClusterLocal'' exampleDeployerSpec) =
     Default ''ClusterLocal'' exampleDeployerSpec \<and>
   IngressPolicy (Default ''ClusterLocal'' exampleDeployerSpec) = ''External'' \<and>
   (\<exists>t'. Template (Default ''ClusterLocal'' exampleDeployerSpec) = Some t' \<and>
      Labels (templateObjectMeta t') = Some [(''app'', ''hello'')] \<and>
      Annotations (templateObjectMeta t') = Some [] \<and>
      Containers (templateSpec t') = [\<lparr>containerName = ''user'', containerImage = ''img''\<rparr>] \<and>
      podServiceAccountName (templateSpec t') = ''sa'') \<and>
   IngressPolicy (Default ''ClusterLocal'' (exampleDeployerSpec\<lparr>IngressPolicy := []\<rparr>)) =
     ''ClusterLocal'' \<and>
   Template (Default ''ClusterLocal'' (exampleDeployerSpec\<lparr>Template := None\<rparr>)) =
     Some (defaultTemplate zeroPodTemplateSpec)"
proof -
  have ip: "IngressPolicy exampleDeployerSpec \<noteq> []"
    and tp: "Template exampleDeployerSpec = Some exampleTemplate"
    by (simp_all add: exampleDeployerSpec_def)
  note main = Default_idempotent_nondestructive [of "''ClusterLocal''" exampleDeployerSpec]
  from main tp obtain t' where t': "Template (Default ''ClusterLocal'' exampleDeployerSpec) = Some t'"
    "t' = exampleTemplate\<lparr>templateObjectMeta := (templateObjectMeta exampleTemplate)
                    \<lparr>Labels := Labels (templateObjectMeta t'),
                     Annotations := Annotations (templateObjectMeta t')\<rparr>,
                 templateSpec := (templateSpec exampleTemplate)
                    \<lparr>Containers := Containers (templateSpec t')\<rparr>\<rparr>"
    "Annotations (templateObjectMeta t') =
            (if Annotations (templateObjectMeta exampleTemplate) = None then Some []
             else Annotations (templateObjectMeta exampleTemplate))"
    "Labels (templateObjectMeta t') =
            (if Labels (templateObjectMeta exampleTemplate) = None then Some []
             else Labels (templateObjectMeta exampleTemplate))"
    "Containers (templateSpec t') =
            (if Containers (templateSpec exampleTemplate) = [] then [zeroContainer]
             else Containers (templateSpec exampleTemplate))"
    by blast
  have sa: "podServiceAccountName (templateSpec t') = ''sa''"
    by (subst t'(2)) (simp add: exampleTemplate_def)
  have a: "\<exists>t'. Template (Default ''ClusterLocal'' exampleDeployerSpec) = Some t' \<and>
      Labels (templateObjectMeta t') = Some [(''app'', ''hello'')] \<and>
      Annotations (templateObjectMeta t') = Some [] \<and>
      Containers (templateSpec t') = [\<lparr>containerName = ''user'', containerImage = ''img''\<rparr>] \<and>
      podServiceAccountName (templateSpec t') = ''sa''"
    using t'(1,3,4,5) sa by (simp add: exampleTemplate_def zeroObjectMeta_def)
  have b: "IngressPolicy (Default ''ClusterLocal'' (exampleDeployerSpec\<lparr>IngressPolicy := []\<rparr>)) =
     ''ClusterLocal''"
    using Default_idempotent_nondestructive
      [of "''ClusterLocal''" "exampleDeployerSpec\<lparr>IngressPolicy := []\<rparr>"]
    by simp
  have c: "Template (Default ''ClusterLocal'' (exampleDeployerSpec\<lparr>Template := None\<rparr>)) =
     Some (defaultTemplate zeroPodTemplateSpec)"
    using Default_idempotent_nondestructive
      [of "''ClusterLocal''" "exampleDeployerSpec\<lparr>Template := None\<rparr>"]
    by simp
  have ipv: "IngressPolicy exampleDeployerSpec = ''External''"
    by (simp add: exampleDeployerSpec_def)
  have d: "IngressPolicy (Default ''ClusterLocal'' exampleDeployerSpec) = ''External''"
    using main ip ipv by simp
  have e: "Default ''ClusterLocal'' (Default ''ClusterLocal'' exampleDeployerSpec) =
     Default ''ClusterLocal'' exampleDeployerSpec"
    using main by blast
  from ip tp a b c d e show ?thesis by blast
qed

section \<open>Properties of the condition aggregator\<close>

lemma firstFalse_None_iff:
  "firstFalse cs deps = None \<longleftrightarrow>
     (\<forall>t\<in>set deps. Status (trackedCondition cs t) \<noteq> ConditionFalse)"
  by (induction deps) auto

lemma firstFalse_SomeD:
  "firstFalse cs deps = Some c \<Longrightarrow>
     \<exists>pre t post. deps = pre @ t # post \<and>
       (\<forall>u\<in>set pre. Status (trackedCondition cs u) \<noteq> ConditionFalse) \<and>
       Status (trackedCondition cs t) = ConditionFalse \<and> c = trackedCondition cs t"
proof (induction deps)
  case Nil
  then show ?case by simp
next
  case (Cons d ds)
  show ?case
  proof (cases "Status (trackedCondition cs d) = ConditionFalse")
    case True
    with Cons.prems have "c = trackedCondition cs d" by simp
    with True have "d # ds = [] @ d # ds \<and>
        (\<forall>u\<in>set []. Status (trackedCondition cs u) \<noteq> ConditionFalse) \<and>
        Status (trackedCondition cs d) = ConditionFalse \<and> c = trackedCondition cs d"
      by simp
    then show ?thesis by blast
  next
    case False
    with Cons.prems have "firstFalse cs ds = Some c" by simp
    from Cons.IH [OF this] obtain pre t post where
      p: "ds = pre @ t # post"
        "\<forall>u\<in>set pre. Status (trackedCondition cs u) \<noteq> ConditionFalse"
        "Status (trackedCondition cs t) = ConditionFalse" "c = trackedCondition cs t"
      by blast
    from p False have "d # ds = (d # pre) @ t # post \<and>
        (\<forall>u\<in>set (d # pre). Status (trackedCondition cs u) \<noteq> ConditionFalse) \<and>
        Status (trackedCondition cs t) = ConditionFalse \<and> c = trackedCondition cs t"
      by simp
    then show ?thesis by blast
  qed
qed

lemma anyUnknown_iff:
  "anyUnknown cs deps \<longleftrightarrow>
     (\<exists>t\<in>set deps. Status (trackedCondition cs t) = ConditionUnknown)"
  by (induction deps) auto

lemma aggregateReady_True_iff:
  "Status (aggregateReady deps cs) = ConditionTrue \<longleftrightarrow>
     (\<forall>t\<in>set deps. Status (trackedCondition cs t) = ConditionTrue)"
proof (cases "firstFalse cs deps")
  case None
  then have nf: "\<forall>t\<in>set deps. Status (trackedCondition cs t) \<noteq> ConditionFalse"
    by (simp add: firstFalse_None_iff)
  show ?thesis
  proof (cases "anyUnknown cs deps")
    case True
    then obtain t where "t \<in> set deps" "Status (trackedCondition cs t) = ConditionUnknown"
      by (auto simp: anyUnknown_iff)
    then have "\<not> (\<forall>t\<in>set deps. Status (trackedCondition cs t) = ConditionTrue)"
      by force
    with None True show ?thesis by (simp add: aggregateReady_def)
  next
    case False
    then have "\<forall>t\<in>set deps. Status (trackedCondition cs t) \<noteq> ConditionUnknown"
      by (simp add: anyUnknown_iff)
    with nf have "\<forall>t\<in>set deps. Status (trackedCondition cs t) = ConditionTrue"
      by (metis ConditionStatus.exhaust)
    with None False show ?thesis by (simp add: aggregateReady_def)
  qed
next
  case (Some c)
  then have "\<not> (\<forall>t\<in>set deps. Status (trackedCondition cs t) \<noteq> ConditionFalse)"
    using firstFalse_None_iff [of cs deps] by simp
  then have "\<not> (\<forall>t\<in>set deps. Status (trackedCondition cs t) = ConditionTrue)"
    by force
  with Some show ?thesis by (simp add: aggregateReady_def)
qed

lemma aggregateReady_False:
  assumes "\<exists>t\<in>set deps. Status (trackedCondition cs t) = ConditionFalse"
  shows "Status (aggregateReady deps cs) = ConditionFalse \<and>
     (\<exists>pre t post. deps = pre @ t # post \<and>
        (\<forall>u\<in>set pre. Status (trackedCondition cs u) \<noteq> ConditionFalse) \<and>
        Status (trackedCondition cs t) = ConditionFalse \<and>
        Reason (aggregateReady deps cs) = Reason (trackedCondition cs t) \<and>
        Message (aggregateReady deps cs) = Message (trackedCondition cs t))"
proof -
  from assms have "firstFalse cs deps \<noteq> None"
    by (simp add: firstFalse_None_iff)
  then obtain c where c: "firstFalse cs deps = Some c" by blast
  from firstFalse_SomeD [OF c] obtain pre t post where
    p: "deps = pre @ t # post"
      "\<forall>u\<in>set pre. Status (trackedCondition cs u) \<noteq> ConditionFalse"
      "Status (trackedCondition cs t) = ConditionFalse" "c = trackedCondition cs t"
    by blast
  have "Status (aggregateReady deps cs) = ConditionFalse"
    "Reason (aggregateReady deps cs) = Reason (trackedCondition cs t)"
    "Message (aggregateReady deps cs) = Message (trackedCondition cs t)"
    using c p(4) by (simp_all add: aggregateReady_def)
  with p show ?thesis by blast
qed

lemma aggregateReady_Unknown:
  assumes "\<forall>t\<in>set deps. Status (trackedCondition cs t) \<noteq> ConditionFalse"
    and "\<exists>t\<in>set deps. Status (trackedCondition cs t) = ConditionUnknown"
  shows "Status (aggregateReady deps cs) = ConditionUnknown"
proof -
  from assms(1) have "firstFalse cs deps = None" by (simp add: firstFalse_None_iff)
  moreover from assms(2) have "anyUnknown cs deps" by (simp add: anyUnknown_iff)
  ultimately show ?thesis by (simp add: aggregateReady_def)
qed

text \<open>
  C1. For every declared list of dependency condition types and every set of
  conditions, the derived \<^verbatim>\<open>Ready\<close> condition is \<^verbatim>\<open>True\<close> exactly when every
  tracked condition is \<^verbatim>\<open>True\<close>; when some tracked condition is \<^verbatim>\<open>False\<close>,
  \<^verbatim>\<open>Ready\<close> is \<^verbatim>\<open>False\<close> and carries the reason and the message of the first
  \<^verbatim>\<open>False\<close> condition in declared order (no type declared before it is
  \<^verbatim>\<open>False\<close>); when none is \<^verbatim>\<open>False\<close> and some is \<^verbatim>\<open>Unknown\<close>, \<^verbatim>\<open>Ready\<close> is
  \<^verbatim>\<open>Unknown\<close>.
\<close>

theorem Ready_aggregation:
  "(Status (aggregateReady deps cs) = ConditionTrue \<longleftrightarrow>
      (\<forall>t\<in>set deps. Status (trackedCondition cs t) = ConditionTrue)) \<and>
   ((\<exists>t\<in>set deps. Status (trackedCondition cs t) = ConditionFalse) \<longrightarrow>
      Status (aggregateReady deps cs) = ConditionFalse \<and>
      (\<exists>pre t post. deps = pre @ t # post \<and>
         (\<forall>u\<in>set pre. Status (trackedCondition cs u) \<noteq> ConditionFalse) \<and>
         Status (trackedCondition cs t) = ConditionFalse \<and>
         Reason (aggregateReady deps cs) = Reason (trackedCondition cs t) \<and>
         Message (aggregateReady deps cs) = Message (trackedCondition cs t))) \<and>
   ((\<forall>t\<in>set deps. Status (trackedCondition cs t) \<noteq> ConditionFalse) \<and>
    (\<exists>t\<in>set deps. Status (trackedCondition cs t) = ConditionUnknown) \<longrightarrow>
      Status (aggregateReady deps cs) = ConditionUnknown)"
  using aggregateReady_True_iff [of deps cs] aggregateReady_False [of deps cs]
    aggregateReady_Unknown [of deps cs]
  by blast

text \<open>
  The rows "not ready, route", "ready" and "create knative resources, from
  image" of the Deployer test table, on the declared types of the Deployer.
\<close>

lemma tracked_routeNotReady:
  "trackedCondition routeNotReady ''ConfigurationReady'' =
     \<lparr>Type = ''ConfigurationReady'', Status = ConditionTrue, Reason = [], Message = []\<rparr>"
  "trackedCondition routeNotReady ''RouteReady'' =
     \<lparr>Type = ''RouteReady'', Status = ConditionFalse, Reason = ''TestReason'',
      Message = ''a human readable message''\<rparr>"
  by (simp_all add: trackedCondition_def routeNotReady_def)

lemma tracked_allReady:
  "Status (trackedCondition allReady ''ConfigurationReady'') = ConditionTrue"
  "Status (trackedCondition allReady ''RouteReady'') = ConditionTrue"
  by (simp_all add: trackedCondition_def allReady_def)

lemma tracked_empty:
  "Status (trackedCondition [] t) = ConditionUnknown"
  by (simp add: trackedCondition_def)

theorem Ready_aggregation_witness:
  "Status (trackedCondition routeNotReady ''RouteReady'') = ConditionFalse \<and>
   Status (aggregateReady deployerDeps routeNotReady) = ConditionFalse \<and>
   Reason (aggregateReady deployerDeps routeNotReady) = ''TestReason'' \<and>
   Message (aggregateReady deployerDeps routeNotReady) = ''a human readable message'' \<and>
   Status (aggregateReady deployerDeps allReady) = ConditionTrue \<and>
   Status (aggregateReady deployerDeps []) = ConditionUnknown"
proof -
  have f: "\<exists>t\<in>set deployerDeps. Status (trackedCondition routeNotReady t) = ConditionFalse"
    by (simp add: deployerDeps_def tracked_routeNotReady)
  with Ready_aggregation [of deployerDeps routeNotReady]
  obtain pre t post where
    p: "Status (aggregateReady deployerDeps routeNotReady) = ConditionFalse"
      "deployerDeps = pre @ t # post"
      "\<forall>u\<in>set pre. Status (trackedCondition routeNotReady u) \<noteq> ConditionFalse"
      "Status (trackedCondition routeNotReady t) = ConditionFalse"
      "Reason (aggregateReady deployerDeps routeNotReady) = Reason (trackedCondition routeNotReady t)"
      "Message (aggregateReady deployerDeps routeNotReady) = Message (trackedCondition routeNotReady t)"
    by blast
  from p(2) have "t \<in> set deployerDeps" by (metis in_set_conv_decomp)
  then have "t = ''ConfigurationReady'' \<or> t = ''RouteReady''"
    by (simp add: deployerDeps_def)
  with p(4) have t: "t = ''RouteReady''"
    by (auto simp: tracked_routeNotReady)
  have a: "Reason (aggregateReady deployerDeps routeNotReady) = ''TestReason''"
    "Message (aggregateReady deployerDeps routeNotReady) = ''a human readable message''"
    using p(5,6) unfolding t by (simp_all add: tracked_routeNotReady)
  have "\<forall>t\<in>set deployerDeps. Status (trackedCondition allReady t) = ConditionTrue"
    by (simp add: deployerDeps_def tracked_allReady)
  with Ready_aggregation [of deployerDeps allReady]
  have b: "Status (aggregateReady deployerDeps allReady) = ConditionTrue" by blast
  have "(\<forall>t\<in>set deployerDeps. Status (trackedCondition [] t) \<noteq> ConditionFalse) \<and>
    (\<exists>t\<in>set deployerDeps. Status (trackedCondition [] t) = ConditionUnknown)"
    by (auto simp: deployerDeps_def tracked_empty)
  with Ready_aggregation [of deployerDeps "[]"]
  have c: "Status (aggregateReady deployerDeps []) = ConditionUnknown" by blast
  from p(1) a b c show ?thesis by (simp add: tracked_routeNotReady)
qed

section \<open>Properties of the child synchroniser\<close>

lemma deleteChild_fails:
  "failDelete r (childNamed x) = Some e \<Longrightarrow>
     deleteChild r x cl = (Some e, cl\<lparr>writes := writes cl @ [ChildDelete (childNamed x)]\<rparr>)"
  by (simp add: deleteChild_def Let_def)

lemma deleteChild_succeeds:
  "failDelete r (childNamed x) = None \<Longrightarrow>
     deleteChild r x cl =
       (None, cl\<lparr>writes := writes cl @ [ChildDelete (childNamed x)],
                 children := filter (\<lambda>y. childNamed y \<noteq> childNamed x) (children cl)\<rparr>)"
  by (simp add: deleteChild_def Let_def)

text \<open>
  The deleting loop on any list of extras: it issues the deletes of a prefix of
  the list, in order, and nothing else; it ends with an error exactly when a
  delete fails, and then the failing delete is the last one issued.
\<close>

lemma deleteExtras_prefix:
  "deleteExtras r xs cl = (res, cl') \<Longrightarrow>
     \<exists>k\<le>length xs. writes cl' = writes cl @ map (\<lambda>x. ChildDelete (childNamed x)) (take k xs) \<and>
       (\<forall>x\<in>set (take (k - 1) xs). failDelete r (childNamed x) = None) \<and>
       (case res of
          None \<Rightarrow> k = length xs \<and> (\<forall>x\<in>set xs. failDelete r (childNamed x) = None)
        | Some e \<Rightarrow> 0 < k \<and> failDelete r (childNamed (xs ! (k - 1))) = Some e)"
proof (induction xs arbitrary: cl)
  case Nil
  then show ?case by auto
next
  case (Cons x xs)
  show ?case
  proof (cases "failDelete r (childNamed x)")
    case (Some e)
    with Cons.prems have "res = Some e"
      "cl' = cl\<lparr>writes := writes cl @ [ChildDelete (childNamed x)]\<rparr>"
      by (simp_all add: deleteChild_fails)
    with Some show ?thesis
      by (intro exI [of _ 1]) simp
  next
    case None
    let ?cl1 = "cl\<lparr>writes := writes cl @ [ChildDelete (childNamed x)],
                 children := filter (\<lambda>y. childNamed y \<noteq> childNamed x) (children cl)\<rparr>"
    from None Cons.prems have "deleteExtras r xs ?cl1 = (res, cl')"
      by (simp add: deleteChild_succeeds)
    from Cons.IH [OF this] obtain k where
      k: "k \<le> length xs"
        "writes cl' = writes ?cl1 @ map (\<lambda>x. ChildDelete (childNamed x)) (take k xs)"
        "\<forall>x\<in>set (take (k - 1) xs). failDelete r (childNamed x) = None"
        "case res of
           None \<Rightarrow> k = length xs \<and> (\<forall>x\<in>set xs. failDelete r (childNamed x) = None)
         | Some e \<Rightarrow> 0 < k \<and> failDelete r (childNamed (xs ! (k - 1))) = Some e"
      by blast
    have "\<forall>y\<in>set (take (Suc k - 1) (x # xs)). failDelete r (childNamed y) = None"
    proof (cases k)
      case 0
      then show ?thesis by simp
    next
      case (Suc j)
      with k(3) None show ?thesis by simp
    qed
    moreover have "case res of
           None \<Rightarrow> Suc k = length (x # xs) \<and>
             (\<forall>y\<in>set (x # xs). failDelete r (childNamed y) = None)
         | Some e \<Rightarrow> 0 < Suc k \<and> failDelete r (childNamed ((x # xs) ! (Suc k - 1))) = Some e"
      using k(4) None by (cases res) (auto simp: nth_Cons')
    ultimately show ?thesis
      using k(1,2) by (intro exI [of _ "Suc k"]) simp
  qed
qed

lemma Converge_several:
  "ownedChildren owner cl = x # y # zs \<Longrightarrow>
     Converge r keep owner desired cl =
       (case deleteExtras r (extrasOf keep (x # y # zs)) cl of
          (Some e, cl') \<Rightarrow> (Inl e, cl')
        | (None, cl') \<Rightarrow>
            (case keep (x # y # zs) of
               None \<Rightarrow> convergeNone r desired cl'
             | Some actual \<Rightarrow> convergeActual r desired actual cl'))"
  by (simp add: Converge_def)

lemma createChild_writes:
  "createChild r d cl = (res, cl') \<Longrightarrow> writes cl' = writes cl @ [ChildCreate d]"
  by (auto simp: createChild_def Let_def split: option.splits if_splits)

lemma convergeActual_writes:
  "convergeActual r (Some d) actual cl = (res, cl') \<Longrightarrow>
     writes cl' = writes cl \<or> (\<exists>u. writes cl' = writes cl @ [ChildUpdate u])"
  by (auto simp: convergeActual_def updateChild_def Let_def split: option.splits if_splits)

text \<open>
  C8. A cluster lists more than one owned child, and the extras among them,
  the ones that are not kept, are \<open>e1\<close> and \<open>e2\<close>, in this order. The desired
  child is \<open>d\<close>. (a) When both deletes succeed, the cycle issues the delete of
  \<open>e1\<close>, then the delete of \<open>e2\<close>, and after them at most one more call, which
  is no delete: the create of \<open>d\<close> when no child is kept, and nothing or one
  update when one is kept. (b) When the delete of \<open>e1\<close> fails, the cycle ends with
  that error, the delete of \<open>e1\<close> is the only call issued (the delete of \<open>e2\<close> is
  not attempted, nothing is created) and the children are as before. (c) When
  the delete of \<open>e1\<close> succeeds and the one of \<open>e2\<close> fails, the cycle ends with
  that error after these two calls, and \<open>e1\<close> stays deleted: the children are
  those of before without \<open>e1\<close>.
\<close>

theorem extras_cleanup:
  assumes "ownedChildren owner cl = x # y # zs"
    and "extrasOf keep (x # y # zs) = [e1, e2]"
  shows "(failDelete r (childNamed e1) = None \<and> failDelete r (childNamed e2) = None \<longrightarrow>
       (\<exists>res cl' rest. Converge r keep owner (Some d) cl = (res, cl') \<and>
          writes cl' = writes cl @
            [ChildDelete (childNamed e1), ChildDelete (childNamed e2)] @ rest \<and>
          (case keep (x # y # zs) of
             None \<Rightarrow> rest = [ChildCreate d]
           | Some actual \<Rightarrow> rest = [] \<or> (\<exists>u. rest = [ChildUpdate u])))) \<and>
    (\<forall>err. failDelete r (childNamed e1) = Some err \<longrightarrow>
       Converge r keep owner (Some d) cl =
         (Inl err, cl\<lparr>writes := writes cl @ [ChildDelete (childNamed e1)]\<rparr>)) \<and>
    (\<forall>err. failDelete r (childNamed e1) = None \<and> failDelete r (childNamed e2) = Some err \<longrightarrow>
       (\<exists>cl'. Converge r keep owner (Some d) cl = (Inl err, cl') \<and>
          writes cl' = writes cl @ [ChildDelete (childNamed e1), ChildDelete (childNamed e2)] \<and>
          children cl' = filter (\<lambda>y. childNamed y \<noteq> childNamed e1) (children cl)))"
proof (intro conjI allI impI)
  note C = Converge_several [OF assms(1), of r keep "Some d", unfolded assms(2)]
  assume ok: "failDelete r (childNamed e1) = None \<and> failDelete r (childNamed e2) = None"
  let ?cl2 = "cl\<lparr>writes := writes cl @ [ChildDelete (childNamed e1), ChildDelete (childNamed e2)],
      children := filter (\<lambda>y. childNamed y \<noteq> childNamed e1 \<and> childNamed y \<noteq> childNamed e2)
        (children cl)\<rparr>"
  have del: "deleteExtras r [e1, e2] cl = (None, ?cl2)"
    using ok by (simp add: deleteChild_succeeds conj_commute)
  have w2: "writes ?cl2 = writes cl @ [ChildDelete (childNamed e1), ChildDelete (childNamed e2)]"
    by simp
  show "\<exists>res cl' rest. Converge r keep owner (Some d) cl = (res, cl') \<and>
          writes cl' = writes cl @
            [ChildDelete (childNamed e1), ChildDelete (childNamed e2)] @ rest \<and>
          (case keep (x # y # zs) of
             None \<Rightarrow> rest = [ChildCreate d]
           | Some actual \<Rightarrow> rest = [] \<or> (\<exists>u. rest = [ChildUpdate u]))"
  proof (cases "keep (x # y # zs)")
    case None
    obtain res cl' where rc: "createChild r d ?cl2 = (res, cl')"
      by (cases "createChild r d ?cl2")
    have "Converge r keep owner (Some d) cl = (res, cl')"
      using C del None rc by (simp add: convergeNone_def)
    moreover have "writes cl' = writes cl @
        [ChildDelete (childNamed e1), ChildDelete (childNamed e2)] @ [ChildCreate d]"
      using createChild_writes [OF rc] w2 by simp
    ultimately show ?thesis using None by auto
  next
    case (Some actual)
    obtain res cl' where rc: "convergeActual r (Some d) actual ?cl2 = (res, cl')"
      by (cases "convergeActual r (Some d) actual ?cl2")
    have conv: "Converge r keep owner (Some d) cl = (res, cl')"
      using C del Some rc by simp
    from convergeActual_writes [OF rc] w2
    have "writes cl' = writes cl @
        [ChildDelete (childNamed e1), ChildDelete (childNamed e2)] @ [] \<or>
      (\<exists>u. writes cl' = writes cl @
        [ChildDelete (childNamed e1), ChildDelete (childNamed e2)] @ [ChildUpdate u])"
      by auto
    with conv Some show ?thesis by auto
  qed
next
  note C = Converge_several [OF assms(1), of r keep "Some d", unfolded assms(2)]
  fix err
  assume f: "failDelete r (childNamed e1) = Some err"
  then have "deleteExtras r [e1, e2] cl =
      (Some err, cl\<lparr>writes := writes cl @ [ChildDelete (childNamed e1)]\<rparr>)"
    by (simp add: deleteChild_fails)
  with C show "Converge r keep owner (Some d) cl =
         (Inl err, cl\<lparr>writes := writes cl @ [ChildDelete (childNamed e1)]\<rparr>)"
    by simp
next
  note C = Converge_several [OF assms(1), of r keep "Some d", unfolded assms(2)]
  fix err
  assume f: "failDelete r (childNamed e1) = None \<and> failDelete r (childNamed e2) = Some err"
  let ?cl1 = "cl\<lparr>writes := writes cl @ [ChildDelete (childNamed e1)],
      children := filter (\<lambda>y. childNamed y \<noteq> childNamed e1) (children cl)\<rparr>"
  have "deleteExtras r [e1, e2] cl =
      (Some err, ?cl1\<lparr>writes := writes ?cl1 @ [ChildDelete (childNamed e2)]\<rparr>)"
    using f by (simp add: deleteChild_succeeds deleteChild_fails)
  with C have "Converge r keep owner (Some d) cl =
      (Inl err, ?cl1\<lparr>writes := writes ?cl1 @ [ChildDelete (childNamed e2)]\<rparr>)"
    by simp
  then show "\<exists>cl'. Converge r keep owner (Some d) cl = (Inl err, cl') \<and>
          writes cl' = writes cl @ [ChildDelete (childNamed e1), ChildDelete (childNamed e2)] \<and>
          children cl' = filter (\<lambda>y. childNamed y \<noteq> childNamed e1) (children cl)"
    by simp
qed

theorem extras_cleanup_witness:
  "ownedChildren testDeployer twoExtras = [extraConfiguration1, extraConfiguration2] \<and>
   extrasOf keepNone [extraConfiguration1, extraConfiguration2] =
     [extraConfiguration1, extraConfiguration2] \<and>
   Converge noFailure keepNone testDeployer (Some testConfigurationCreate) twoExtras =
     (Inr (Some testConfigurationCreate),
      \<lparr>children = [testConfigurationCreate],
       writes = [ChildDelete ''extra-1'', ChildDelete ''extra-2'',
                 ChildCreate testConfigurationCreate]\<rparr>) \<and>
   Converge deleteFails keepNone testDeployer (Some testConfigurationCreate) twoExtras =
     (Inl (OtherError ''induced failure''), twoExtras\<lparr>writes := [ChildDelete ''extra-1'']\<rparr>) \<and>
   Converge secondDeleteFails keepNone testDeployer (Some testConfigurationCreate) twoExtras =
     (Inl (OtherError ''induced failure''),
      \<lparr>children = [extraConfiguration2],
       writes = [ChildDelete ''extra-1'', ChildDelete ''extra-2'']\<rparr>) \<and>
   ownedChildren testDeployer canonicalAndTwoExtras =
     [extraConfiguration1, canonicalConfiguration, extraConfiguration2] \<and>
   extrasOf mostRecent [extraConfiguration1, canonicalConfiguration, extraConfiguration2] =
     [extraConfiguration1, extraConfiguration2] \<and>
   Converge noFailure mostRecent testDeployer (Some testConfigurationCreate)
       canonicalAndTwoExtras =
     (Inr (Some canonicalConfiguration),
      \<lparr>children = [canonicalConfiguration],
       writes = [ChildDelete ''extra-1'', ChildDelete ''extra-2'']\<rparr>)"
proof -
  have o: "ownedChildren testDeployer twoExtras = [extraConfiguration1, extraConfiguration2]"
    and x: "extrasOf keepNone [extraConfiguration1, extraConfiguration2] =
      [extraConfiguration1, extraConfiguration2]"
    by code_simp+
  have n: "childNamed extraConfiguration1 = ''extra-1''"
    "childNamed extraConfiguration2 = ''extra-2''"
    by code_simp+
  note T = extras_cleanup [OF o x, where d = testConfigurationCreate, unfolded n]
  have f1: "failDelete noFailure ''extra-1'' = None \<and> failDelete noFailure ''extra-2'' = None"
    by code_simp
  from T [where r = noFailure] f1
  obtain res cl' rest where
    "Converge noFailure keepNone testDeployer (Some testConfigurationCreate) twoExtras = (res, cl')"
    "writes cl' = writes twoExtras @ [ChildDelete ''extra-1'', ChildDelete ''extra-2''] @ rest"
    by blast
  moreover have "Converge noFailure keepNone testDeployer (Some testConfigurationCreate)
      twoExtras =
     (Inr (Some testConfigurationCreate),
      \<lparr>children = [testConfigurationCreate],
       writes = [ChildDelete ''extra-1'', ChildDelete ''extra-2'',
                 ChildCreate testConfigurationCreate]\<rparr>)"
    by code_simp
  ultimately have a: "Converge noFailure keepNone testDeployer (Some testConfigurationCreate)
      twoExtras =
     (Inr (Some testConfigurationCreate),
      \<lparr>children = [testConfigurationCreate],
       writes = [ChildDelete ''extra-1'', ChildDelete ''extra-2'',
                 ChildCreate testConfigurationCreate]\<rparr>)"
    by simp
  have f2: "failDelete deleteFails ''extra-1'' = Some (OtherError ''induced failure'')"
    by code_simp
  from T [where r = deleteFails] f2
  have "Converge deleteFails keepNone testDeployer (Some testConfigurationCreate) twoExtras =
     (Inl (OtherError ''induced failure''),
      twoExtras\<lparr>writes := writes twoExtras @ [ChildDelete ''extra-1'']\<rparr>)"
    by blast
  moreover have "twoExtras\<lparr>writes := writes twoExtras @ [ChildDelete ''extra-1'']\<rparr> =
      twoExtras\<lparr>writes := [ChildDelete ''extra-1'']\<rparr>"
    by code_simp
  ultimately have b: "Converge deleteFails keepNone testDeployer (Some testConfigurationCreate)
      twoExtras =
     (Inl (OtherError ''induced failure''), twoExtras\<lparr>writes := [ChildDelete ''extra-1'']\<rparr>)"
    by simp
  have f3: "failDelete secondDeleteFails ''extra-1'' = None \<and>
      failDelete secondDeleteFails ''extra-2'' = Some (OtherError ''induced failure'')"
    by code_simp
  from T [where r = secondDeleteFails] f3
  obtain cl3 where
    "Converge secondDeleteFails keepNone testDeployer (Some testConfigurationCreate) twoExtras =
       (Inl (OtherError ''induced failure''), cl3)"
    "writes cl3 = writes twoExtras @ [ChildDelete ''extra-1'', ChildDelete ''extra-2'']"
    "children cl3 = filter (\<lambda>y. childNamed y \<noteq> ''extra-1'') (children twoExtras)"
    by blast
  moreover have "writes twoExtras @ [ChildDelete ''extra-1'', ChildDelete ''extra-2''] =
      [ChildDelete ''extra-1'', ChildDelete ''extra-2'']"
    "filter (\<lambda>y. childNamed y \<noteq> ''extra-1'') (children twoExtras) = [extraConfiguration2]"
    by code_simp+
  ultimately have c: "Converge secondDeleteFails keepNone testDeployer
      (Some testConfigurationCreate) twoExtras =
     (Inl (OtherError ''induced failure''),
      \<lparr>children = [extraConfiguration2],
       writes = [ChildDelete ''extra-1'', ChildDelete ''extra-2'']\<rparr>)"
    by (cases cl3) simp
  have oc: "ownedChildren testDeployer canonicalAndTwoExtras =
      [extraConfiguration1, canonicalConfiguration, extraConfiguration2]"
    and xc: "extrasOf mostRecent [extraConfiguration1, canonicalConfiguration, extraConfiguration2] =
      [extraConfiguration1, extraConfiguration2]"
    by code_simp+
  from extras_cleanup [OF oc xc, where d = testConfigurationCreate and r = noFailure, unfolded n] f1
  obtain res4 cl4 rest4 where
    "Converge noFailure mostRecent testDeployer (Some testConfigurationCreate)
       canonicalAndTwoExtras = (res4, cl4)"
    by blast
  moreover have "Converge noFailure mostRecent testDeployer (Some testConfigurationCreate)
       canonicalAndTwoExtras =
     (Inr (Some canonicalConfiguration),
      \<lparr>children = [canonicalConfiguration],
       writes = [ChildDelete ''extra-1'', ChildDelete ''extra-2'']\<rparr>)"
    by code_simp
  ultimately have d: "Converge noFailure mostRecent testDeployer (Some testConfigurationCreate)
       canonicalAndTwoExtras =
     (Inr (Some canonicalConfiguration),
      \<lparr>children = [canonicalConfiguration],
       writes = [ChildDelete ''extra-1'', ChildDelete ''extra-2'']\<rparr>)"
    by simp
  from o x a b c oc xc d show ?thesis by blast
qed

section \<open>Properties of the FunctionBuild reconciler\<close>

subsection \<open>What each part may do to the cluster\<close>

lemma appends_refl: "appends P eff eff"
  by (simp add: appends_def)

lemma appends_snoc: "appends P eff eff' \<Longrightarrow> P e \<Longrightarrow> appends P eff (eff' @ [e])"
  by (auto simp: appends_def)

lemma appends_trans: "appends P a b \<Longrightarrow> appends P b c \<Longrightarrow> appends P a c"
  by (auto simp: appends_def)

lemma appends_mono: "appends P a b \<Longrightarrow> (\<And>e. P e \<Longrightarrow> Q e) \<Longrightarrow> appends Q a b"
  by (auto simp: appends_def)

lemma appends_one: "P e \<Longrightarrow> appends P eff (eff @ [e])"
  by (simp add: appends_def)


lemma createBuildCache_effects:
  "createBuildCache h c fb eff = (r, eff') \<Longrightarrow> appends touchesPVC eff eff'"
  by (auto simp: createBuildCache_def Let_def appends_refl appends_one
      split: sum.splits option.splits)

lemma reconcileBuildCache_effects:
  "reconcileBuildCache h c fb bc eff = (r, eff') \<Longrightarrow> appends touchesPVC eff eff'"
  by (auto simp: reconcileBuildCache_def Let_def appends_refl appends_one
      split: sum.splits option.splits if_splits)

lemma createBuild_effects:
  "createBuild h c fb eff = (r, eff') \<Longrightarrow> appends touchesBuild eff eff'"
  by (auto simp: createBuild_def Let_def appends_refl appends_one
      split: sum.splits option.splits)

lemma reconcileBuild_effects:
  "reconcileBuild h c fb b eff = (r, eff') \<Longrightarrow> appends touchesBuild eff eff'"
  by (auto simp: reconcileBuild_def Let_def appends_refl appends_one
      split: sum.splits option.splits if_splits)

lemma buildCachePart_effects:
  assumes "buildCachePart h c fb eff = Inl (r, fb', eff') \<or>
           buildCachePart h c fb eff = Inr (x, fb', eff')"
  shows "appends (\<lambda>e. touchesPVC e \<or> isEvent e) eff eff'"
proof -
  have 1: "\<And>fb r e1. createBuildCache h c fb eff = (r, e1) \<Longrightarrow>
      appends (\<lambda>e. touchesPVC e \<or> isEvent e) eff e1"
    by (rule appends_mono [OF createBuildCache_effects]) auto
  have 2: "\<And>fb bc r e1. reconcileBuildCache h c fb bc eff = (r, e1) \<Longrightarrow>
      appends (\<lambda>e. touchesPVC e \<or> isEvent e) eff e1"
    by (rule appends_mono [OF reconcileBuildCache_effects]) auto
  from assms show ?thesis
    unfolding buildCachePart_def Let_def
    by (auto split: sum.splits prod.splits result.splits if_splits
        dest!: 1 2 intro!: appends_snoc appends_refl)
qed

lemma buildPart_effects:
  assumes "buildPart h c fb eff = Inl (r, fb', eff') \<or>
           buildPart h c fb eff = Inr (x, fb', eff')"
  shows "appends (\<lambda>e. touchesBuild e \<or> isEvent e) eff eff'"
proof -
  have 1: "\<And>fb r e1. createBuild h c fb eff = (r, e1) \<Longrightarrow>
      appends (\<lambda>e. touchesBuild e \<or> isEvent e) eff e1"
    by (rule appends_mono [OF createBuild_effects]) auto
  have 2: "\<And>fb b r e1. reconcileBuild h c fb b eff = (r, e1) \<Longrightarrow>
      appends (\<lambda>e. touchesBuild e \<or> isEvent e) eff e1"
    by (rule appends_mono [OF reconcileBuild_effects]) auto
  from assms show ?thesis
    unfolding buildPart_def Let_def
    by (auto split: sum.splits prod.splits result.splits if_splits
        dest!: 1 2 intro!: appends_snoc appends_refl)
qed

lemma buildCachePart_keeps:
  "buildCachePart h c fb eff = Inr (x, fb', eff') \<Longrightarrow> fb' = fb"
  unfolding buildCachePart_def Let_def
  by (auto split: sum.splits prod.splits result.splits if_splits)

lemma buildPart_keeps:
  "buildPart h c fb eff = Inr (x, fb', eff') \<Longrightarrow> fb' = fb"
  unfolding buildPart_def Let_def
  by (auto split: sum.splits prod.splits result.splits if_splits)

lemma reconcileChildren_effects:
  assumes "reconcileChildren h c fb eff = Inl (r, fb', eff') \<or>
           reconcileChildren h c fb eff = Inr (x, fb', eff')"
  shows "appends (\<lambda>e. touchesPVC e \<or> touchesBuild e \<or> isEvent e) eff eff'"
proof -
  let ?P = "\<lambda>e. touchesPVC e \<or> touchesBuild e \<or> isEvent e"
  have 1: "\<And>fb r fb' x e1. buildCachePart h c fb eff = Inl (r, fb', e1) \<or>
      buildCachePart h c fb eff = Inr (x, fb', e1) \<Longrightarrow> appends ?P eff e1"
    by (rule appends_mono [OF buildCachePart_effects]) auto
  have 2: "\<And>fb r fb' x e0 e1. buildPart h c fb e0 = Inl (r, fb', e1) \<or>
      buildPart h c fb e0 = Inr (x, fb', e1) \<Longrightarrow> appends ?P e0 e1"
    by (rule appends_mono [OF buildPart_effects]) auto
  from assms show ?thesis
    unfolding reconcileChildren_def Let_def
    by (auto split: sum.splits prod.splits option.splits
        intro: 1 appends_trans [OF 1 2])
qed

lemma resolveImage_effects:
  "resolveImage h c b fb eff = (r, fb', eff') \<Longrightarrow> appends callsResolver eff eff'"
  by (auto simp: resolveImage_def Let_def appends_refl appends_one
      split: sum.splits if_splits)

lemma reconcile_effects:
  assumes "reconcile h c fb eff = (r, fb', eff')"
  shows "appends (\<lambda>e. \<not> writesStatus e) eff eff'"
proof (cases "DeletionTimestamp (fbObjectMeta fb) \<noteq> None")
  case True
  with assms show ?thesis by (simp add: reconcile_def appends_refl)
next
  case False
  show ?thesis
  proof (cases "reconcileChildren h c fb eff")
    case (Inl a)
    with assms False have "reconcileChildren h c fb eff = Inl (r, fb', eff')"
      by (simp add: reconcile_def)
    then have "appends (\<lambda>e. touchesPVC e \<or> touchesBuild e \<or> isEvent e) eff eff'"
      using reconcileChildren_effects by blast
    then show ?thesis
      by (rule appends_mono) (auto elim: touchesPVC.elims touchesBuild.elims isEvent.elims)
  next
    case (Inr b)
    then obtain build fb1 eff1 where b: "reconcileChildren h c fb eff = Inr (build, fb1, eff1)"
      by (cases b) auto
    with assms False have r: "resolveImage h c build fb1 eff1 = (r, fb', eff')"
      by (simp add: reconcile_def)
    have "appends (\<lambda>e. touchesPVC e \<or> touchesBuild e \<or> isEvent e) eff eff1"
      using reconcileChildren_effects b by blast
    then have 1: "appends (\<lambda>e. \<not> writesStatus e) eff eff1"
      by (rule appends_mono) (auto elim: touchesPVC.elims touchesBuild.elims isEvent.elims)
    have "appends callsResolver eff1 eff'"
      using resolveImage_effects r by blast
    then have 2: "appends (\<lambda>e. \<not> writesStatus e) eff1 eff'"
      by (rule appends_mono) (auto elim: callsResolver.elims)
    from 1 2 show ?thesis by (rule appends_trans)
  qed
qed

subsection \<open>The benign cases of the driver\<close>

text \<open>
  C5. When the key parses and the first fetch of the FunctionBuild answers with
  a not-found error, \<^verbatim>\<open>Reconcile\<close> returns \<^verbatim>\<open>nil\<close> and adds no effect: no create,
  no update, no delete (and no event, no resolver call).
\<close>

theorem missing_owner_is_no_op:
  assumes "SplitMetaNamespaceKey c key = Inr (ns, name)"
    and "functionbuildGet c ns name = Inl err"
    and "IsNotFound err"
  shows "Reconcile h c key eff = (Ok (), eff)"
  using assms by (simp add: Reconcile_def)

theorem missing_owner_is_no_op_witness:
  "SplitMetaNamespaceKey emptyCluster ''ns/fb'' = Inr (''ns'', ''fb'') \<and>
   functionbuildGet emptyCluster ''ns'' ''fb'' = Inl NotFound \<and>
   IsNotFound NotFound \<and>
   Reconcile exampleHelpers emptyCluster ''ns/fb'' [] = (Ok (), [])"
proof -
  have 1: "SplitMetaNamespaceKey emptyCluster ''ns/fb'' = Inr (''ns'', ''fb'')"
    and 2: "functionbuildGet emptyCluster ''ns'' ''fb'' = Inl NotFound"
    and 3: "IsNotFound NotFound"
    by (simp_all add: emptyCluster_def IsNotFound_def)
  from 1 2 3 missing_owner_is_no_op [OF 1 2 3, of exampleHelpers "[]"]
  show ?thesis by simp
qed

text \<open>
  C6. On a FunctionBuild with a deletion timestamp, \<^verbatim>\<open>reconcile\<close> returns \<^verbatim>\<open>nil\<close>
  at once: the object is as it was (no defaulting, no condition initialised,
  no status change) and no effect is added; \<^verbatim>\<open>Reconcile\<close> on a key that fetches
  such an object returns \<^verbatim>\<open>nil\<close> and adds no effect either.
\<close>

theorem deleted_owner_is_left_alone:
  assumes "DeletionTimestamp (fbObjectMeta fb) \<noteq> None"
  shows "reconcile h c fb eff = (Ok (), fb, eff) \<and>
    (SplitMetaNamespaceKey c key = Inr (ns, name) \<and> functionbuildGet c ns name = Inr fb \<longrightarrow>
       Reconcile h c key eff = (Ok (), eff))"
  using assms by (simp add: reconcile_def Reconcile_def semanticStatusEqual_def)

theorem deleted_owner_is_left_alone_witness:
  "DeletionTimestamp (fbObjectMeta deletedFunctionBuild) \<noteq> None \<and>
   SplitMetaNamespaceKey deletedOwnerCluster ''ns/fb'' = Inr (''ns'', ''fb'') \<and>
   functionbuildGet deletedOwnerCluster ''ns'' ''fb'' = Inr deletedFunctionBuild \<and>
   reconcile exampleHelpers deletedOwnerCluster deletedFunctionBuild [] =
     (Ok (), deletedFunctionBuild, []) \<and>
   Reconcile exampleHelpers deletedOwnerCluster ''ns/fb'' [] = (Ok (), [])"
proof -
  have 1: "DeletionTimestamp (fbObjectMeta deletedFunctionBuild) \<noteq> None"
    by (simp add: deletedFunctionBuild_def)
  have 2: "SplitMetaNamespaceKey deletedOwnerCluster ''ns/fb'' = Inr (''ns'', ''fb'')"
    and 3: "functionbuildGet deletedOwnerCluster ''ns'' ''fb'' = Inr deletedFunctionBuild"
    by (simp_all add: deletedOwnerCluster_def emptyCluster_def)
  from 1 2 3
    deleted_owner_is_left_alone [OF 1, of exampleHelpers deletedOwnerCluster "[]" "''ns/fb''"
      "''ns''" "''fb''"]
  show ?thesis by simp
qed

subsection \<open>Targeted updates of the children\<close>

lemma sameMap_iff: "sameMap xs ys \<longleftrightarrow> map_of xs = map_of ys"
proof
  assume a: "sameMap xs ys"
  show "map_of xs = map_of ys"
  proof
    fix k
    show "map_of xs k = map_of ys k"
    proof (cases "k \<in> set (map fst xs @ map fst ys)")
      case True
      with a show ?thesis by (simp add: sameMap_def)
    next
      case False
      then have "map_of xs k = None" "map_of ys k = None"
        by (simp_all add: map_of_eq_None_iff)
      then show ?thesis by simp
    qed
  qed
next
  assume "map_of xs = map_of ys"
  then show "sameMap xs ys" by (simp add: sameMap_def)
qed

lemma semanticMapEqual_refl: "semanticMapEqual a a"
  by (simp add: semanticMapEqual_def sameMap_iff)

lemma semanticResourcesEqual_refl: "semanticResourcesEqual a a"
  by (simp add: semanticResourcesEqual_def sameMap_iff)

text \<open>
  C3. For an observed build cache \<open>bc\<close> and a desired one: when the owned fields
  (the resources of the spec and the labels) are semantically equal,
  \<^verbatim>\<open>reconcileBuildCache\<close> returns \<open>bc\<close> and issues no call. When they are not, and
  the diff can be printed, it issues exactly one call, the update of a copy of
  \<open>bc\<close> in which only the resources and the labels are the desired ones and
  every other field is that of \<open>bc\<close>; the object sent is semantically equal to
  the desired one, and the function returns what the update returns. The same
  holds for \<^verbatim>\<open>reconcileBuild\<close>, whose owned fields are the spec and the labels.
\<close>

theorem targeted_update:
  "(\<forall>desired. MakeBuildCache h fb = Inr (Some desired) \<longrightarrow>
      (buildCacheSemanticEquals desired bc \<longrightarrow>
         reconcileBuildCache h c fb bc eff = (Ok (Some bc), eff)) \<and>
      (\<not> buildCacheSemanticEquals desired bc \<longrightarrow>
         (\<forall>diff. SafeDiffPVC c (pvcSpec desired) (pvcSpec bc) = Inr diff \<longrightarrow>
            (\<exists>existing. existing = bc
                \<lparr>pvcSpec := (pvcSpec bc)\<lparr>Resources := Resources (pvcSpec desired)\<rparr>,
                 pvcObjectMeta := (pvcObjectMeta bc)\<lparr>Labels := Labels (pvcObjectMeta desired)\<rparr>\<rparr> \<and>
               reconcileBuildCache h c fb bc eff =
                 (case pvcUpdate c (Namespace (fbObjectMeta fb)) existing of
                    Inl err \<Rightarrow> Err err | Inr updated \<Rightarrow> Ok (Some updated),
                  eff @ [UpdatePVC (Namespace (fbObjectMeta fb)) existing]) \<and>
               buildCacheSemanticEquals desired existing)))) \<and>
   (\<forall>desired. MakeBuild h fb = Inr (Some desired) \<longrightarrow>
      (buildSemanticEquals desired b \<longrightarrow>
         reconcileBuild h c fb b eff = (Ok (Some b), eff)) \<and>
      (\<not> buildSemanticEquals desired b \<longrightarrow>
         (\<forall>diff. SafeDiffBuild c (buildSpec desired) (buildSpec b) = Inr diff \<longrightarrow>
            (\<exists>existing. existing = b
                \<lparr>buildSpec := buildSpec desired,
                 buildObjectMeta := (buildObjectMeta b)\<lparr>Labels := Labels (buildObjectMeta desired)\<rparr>\<rparr> \<and>
               reconcileBuild h c fb b eff =
                 (case knbuildUpdate c (Namespace (fbObjectMeta fb)) existing of
                    Inl err \<Rightarrow> Err err | Inr updated \<Rightarrow> Ok (Some updated),
                  eff @ [UpdateBuild (Namespace (fbObjectMeta fb)) existing]) \<and>
               buildSemanticEquals desired existing))))"
proof (intro conjI allI impI)
  fix desired
  assume d: "MakeBuildCache h fb = Inr (Some desired)"
  show "buildCacheSemanticEquals desired bc \<Longrightarrow>
      reconcileBuildCache h c fb bc eff = (Ok (Some bc), eff)"
    using d by (simp add: reconcileBuildCache_def)
  fix diff
  assume ne: "\<not> buildCacheSemanticEquals desired bc"
    and sd: "SafeDiffPVC c (pvcSpec desired) (pvcSpec bc) = Inr diff"
  let ?existing = "bc
      \<lparr>pvcSpec := (pvcSpec bc)\<lparr>Resources := Resources (pvcSpec desired)\<rparr>,
       pvcObjectMeta := (pvcObjectMeta bc)\<lparr>Labels := Labels (pvcObjectMeta desired)\<rparr>\<rparr>"
  have "reconcileBuildCache h c fb bc eff =
      (case pvcUpdate c (Namespace (fbObjectMeta fb)) ?existing of
         Inl err \<Rightarrow> Err err | Inr updated \<Rightarrow> Ok (Some updated),
       eff @ [UpdatePVC (Namespace (fbObjectMeta fb)) ?existing])"
    using d ne sd by (simp add: reconcileBuildCache_def Let_def split: sum.splits)
  moreover have "buildCacheSemanticEquals desired ?existing"
    by (simp add: buildCacheSemanticEquals_def semanticMapEqual_refl semanticResourcesEqual_refl)
  ultimately show "\<exists>existing. existing = bc
        \<lparr>pvcSpec := (pvcSpec bc)\<lparr>Resources := Resources (pvcSpec desired)\<rparr>,
         pvcObjectMeta := (pvcObjectMeta bc)\<lparr>Labels := Labels (pvcObjectMeta desired)\<rparr>\<rparr> \<and>
       reconcileBuildCache h c fb bc eff =
         (case pvcUpdate c (Namespace (fbObjectMeta fb)) existing of
            Inl err \<Rightarrow> Err err | Inr updated \<Rightarrow> Ok (Some updated),
          eff @ [UpdatePVC (Namespace (fbObjectMeta fb)) existing]) \<and>
       buildCacheSemanticEquals desired existing"
    by blast
next
  fix desired
  assume d: "MakeBuild h fb = Inr (Some desired)"
  show "buildSemanticEquals desired b \<Longrightarrow> reconcileBuild h c fb b eff = (Ok (Some b), eff)"
    using d by (simp add: reconcileBuild_def)
  fix diff
  assume ne: "\<not> buildSemanticEquals desired b"
    and sd: "SafeDiffBuild c (buildSpec desired) (buildSpec b) = Inr diff"
  let ?existing = "b
      \<lparr>buildSpec := buildSpec desired,
       buildObjectMeta := (buildObjectMeta b)\<lparr>Labels := Labels (buildObjectMeta desired)\<rparr>\<rparr>"
  have "reconcileBuild h c fb b eff =
      (case knbuildUpdate c (Namespace (fbObjectMeta fb)) ?existing of
         Inl err \<Rightarrow> Err err | Inr updated \<Rightarrow> Ok (Some updated),
       eff @ [UpdateBuild (Namespace (fbObjectMeta fb)) ?existing])"
    using d ne sd by (simp add: reconcileBuild_def Let_def split: sum.splits)
  moreover have "buildSemanticEquals desired ?existing"
    by (simp add: buildSemanticEquals_def semanticMapEqual_refl)
  ultimately show "\<exists>existing. existing = b
        \<lparr>buildSpec := buildSpec desired,
         buildObjectMeta := (buildObjectMeta b)\<lparr>Labels := Labels (buildObjectMeta desired)\<rparr>\<rparr> \<and>
       reconcileBuild h c fb b eff =
         (case knbuildUpdate c (Namespace (fbObjectMeta fb)) existing of
            Inl err \<Rightarrow> Err err | Inr updated \<Rightarrow> Ok (Some updated),
          eff @ [UpdateBuild (Namespace (fbObjectMeta fb)) existing]) \<and>
       buildSemanticEquals desired existing"
    by blast
qed

theorem targeted_update_witness:
  "MakeBuildCache exampleHelpers testFunctionBuild = Inr (Some (desiredCache testFunctionBuild)) \<and>
   \<not> buildCacheSemanticEquals (desiredCache testFunctionBuild) observedCache \<and>
   reconcileBuildCache exampleHelpers emptyCluster testFunctionBuild observedCache [] =
     (Ok (Some updatedCache), [UpdatePVC ''ns'' updatedCache]) \<and>
   AccessModes (pvcSpec updatedCache) = [''ReadWriteMany''] \<and>
   Annotations (pvcObjectMeta updatedCache) = Some [(''bound-by'', ''controller'')] \<and>
   pvcStatus updatedCache = \<lparr>Phase = ''Bound''\<rparr> \<and>
   buildCacheSemanticEquals (desiredCache testFunctionBuild) boundCache \<and>
   reconcileBuildCache exampleHelpers emptyCluster testFunctionBuild boundCache [] =
     (Ok (Some boundCache), []) \<and>
   MakeBuild exampleHelpers testFunctionBuild = Inr (Some (desiredBuild testFunctionBuild)) \<and>
   \<not> buildSemanticEquals (desiredBuild testFunctionBuild) observedBuild \<and>
   reconcileBuild exampleHelpers emptyCluster testFunctionBuild observedBuild [] =
     (Ok (Some updatedBuild), [UpdateBuild ''ns'' updatedBuild]) \<and>
   UID (buildObjectMeta updatedBuild) = ''build-uid'' \<and>
   buildStatus updatedBuild = buildStatus observedBuild"
proof -
  note T = targeted_update [where h = exampleHelpers and fb = testFunctionBuild
      and c = emptyCluster and eff = "[]" and b = observedBuild]
  have 1: "MakeBuildCache exampleHelpers testFunctionBuild =
      Inr (Some (desiredCache testFunctionBuild))"
    by code_simp
  have 2: "\<not> buildCacheSemanticEquals (desiredCache testFunctionBuild) observedCache"
    by code_simp
  have 3: "SafeDiffPVC emptyCluster (pvcSpec (desiredCache testFunctionBuild))
      (pvcSpec observedCache) = Inr ''diff''"
    by code_simp
  from T [where bc = observedCache] 1 2 3
  obtain existing where e: "existing = observedCache
        \<lparr>pvcSpec := (pvcSpec observedCache)
           \<lparr>Resources := Resources (pvcSpec (desiredCache testFunctionBuild))\<rparr>,
         pvcObjectMeta := (pvcObjectMeta observedCache)
           \<lparr>Labels := Labels (pvcObjectMeta (desiredCache testFunctionBuild))\<rparr>\<rparr>"
      "reconcileBuildCache exampleHelpers emptyCluster testFunctionBuild observedCache [] =
         (case pvcUpdate emptyCluster (Namespace (fbObjectMeta testFunctionBuild)) existing of
            Inl err \<Rightarrow> Err err | Inr updated \<Rightarrow> Ok (Some updated),
          [] @ [UpdatePVC (Namespace (fbObjectMeta testFunctionBuild)) existing])"
    by blast
  have "existing = updatedCache"
    unfolding e(1) by code_simp
  with e(2) have a: "reconcileBuildCache exampleHelpers emptyCluster testFunctionBuild
      observedCache [] =
      (case pvcUpdate emptyCluster (Namespace (fbObjectMeta testFunctionBuild)) updatedCache of
         Inl err \<Rightarrow> Err err | Inr updated \<Rightarrow> Ok (Some updated),
       [] @ [UpdatePVC (Namespace (fbObjectMeta testFunctionBuild)) updatedCache])"
    by simp
  have "(case pvcUpdate emptyCluster (Namespace (fbObjectMeta testFunctionBuild)) updatedCache of
         Inl err \<Rightarrow> Err err | Inr updated \<Rightarrow> Ok (Some updated),
       [] @ [UpdatePVC (Namespace (fbObjectMeta testFunctionBuild)) updatedCache]) =
      (Ok (Some updatedCache), [UpdatePVC ''ns'' updatedCache])"
    by code_simp
  with a have A: "reconcileBuildCache exampleHelpers emptyCluster testFunctionBuild
      observedCache [] = (Ok (Some updatedCache), [UpdatePVC ''ns'' updatedCache])"
    by (rule trans)
  have 4: "buildCacheSemanticEquals (desiredCache testFunctionBuild) boundCache"
    by code_simp
  from T [where bc = boundCache] 1 4
  have B: "reconcileBuildCache exampleHelpers emptyCluster testFunctionBuild boundCache [] =
      (Ok (Some boundCache), [])"
    by blast
  have 5: "MakeBuild exampleHelpers testFunctionBuild = Inr (Some (desiredBuild testFunctionBuild))"
    by code_simp
  have 6: "\<not> buildSemanticEquals (desiredBuild testFunctionBuild) observedBuild"
    by code_simp
  have 7: "SafeDiffBuild emptyCluster (buildSpec (desiredBuild testFunctionBuild))
      (buildSpec observedBuild) = Inr ''diff''"
    by code_simp
  from T [where bc = observedCache] 5 6 7
  obtain existing' where e': "existing' = observedBuild
        \<lparr>buildSpec := buildSpec (desiredBuild testFunctionBuild),
         buildObjectMeta := (buildObjectMeta observedBuild)
           \<lparr>Labels := Labels (buildObjectMeta (desiredBuild testFunctionBuild))\<rparr>\<rparr>"
      "reconcileBuild exampleHelpers emptyCluster testFunctionBuild observedBuild [] =
         (case knbuildUpdate emptyCluster (Namespace (fbObjectMeta testFunctionBuild)) existing' of
            Inl err \<Rightarrow> Err err | Inr updated \<Rightarrow> Ok (Some updated),
          [] @ [UpdateBuild (Namespace (fbObjectMeta testFunctionBuild)) existing'])"
    by blast
  have "existing' = updatedBuild"
    unfolding e'(1) by code_simp
  with e'(2) have c: "reconcileBuild exampleHelpers emptyCluster testFunctionBuild observedBuild [] =
      (case knbuildUpdate emptyCluster (Namespace (fbObjectMeta testFunctionBuild)) updatedBuild of
         Inl err \<Rightarrow> Err err | Inr updated \<Rightarrow> Ok (Some updated),
       [] @ [UpdateBuild (Namespace (fbObjectMeta testFunctionBuild)) updatedBuild])"
    by simp
  have "(case knbuildUpdate emptyCluster (Namespace (fbObjectMeta testFunctionBuild)) updatedBuild of
         Inl err \<Rightarrow> Err err | Inr updated \<Rightarrow> Ok (Some updated),
       [] @ [UpdateBuild (Namespace (fbObjectMeta testFunctionBuild)) updatedBuild]) =
      (Ok (Some updatedBuild), [UpdateBuild ''ns'' updatedBuild])"
    by code_simp
  with c have C: "reconcileBuild exampleHelpers emptyCluster testFunctionBuild observedBuild [] =
      (Ok (Some updatedBuild), [UpdateBuild ''ns'' updatedBuild])"
    by (rule trans)
  have D: "AccessModes (pvcSpec updatedCache) = [''ReadWriteMany'']"
    "Annotations (pvcObjectMeta updatedCache) = Some [(''bound-by'', ''controller'')]"
    "pvcStatus updatedCache = \<lparr>Phase = ''Bound''\<rparr>"
    "UID (buildObjectMeta updatedBuild) = ''build-uid''"
    "buildStatus updatedBuild = buildStatus observedBuild"
    by code_simp+
  from 1 2 A D 4 B 5 6 C show ?thesis by blast
qed

subsection \<open>What the driver does after \<^verbatim>\<open>reconcile\<close>\<close>

lemma semanticStatusEqual_refl: "semanticStatusEqual a a"
  by (simp add: semanticStatusEqual_def)

lemma reflect_implies_semantic: "reflectStatusEqual a b \<Longrightarrow> semanticStatusEqual a b"
  by (simp add: reflectStatusEqual_def semanticStatusEqual_def)

lemma updateStatus_no_panic: "fst (updateStatus c desired eff) \<noteq> Panic"
  by (simp add: updateStatus_def Let_def split: sum.splits)

lemma updateStatus_effects:
  "updateStatus c desired eff = (r, eff') \<Longrightarrow> appends writesStatus eff eff'"
  by (auto simp: updateStatus_def Let_def appends_refl appends_one split: sum.splits if_splits)

text \<open>
  When the computed status is semantically the fetched one, the driver returns
  what \<^verbatim>\<open>reconcile\<close> returned and adds nothing.
\<close>

lemma Reconcile_unchanged:
  assumes "SplitMetaNamespaceKey c key = Inr (ns, name)"
    and "functionbuildGet c ns name = Inr original"
    and "reconcile h c original eff = (r, fb', eff1)"
    and "semanticStatusEqual (fbStatus original) (fbStatus fb')"
  shows "Reconcile h c key eff = (r, eff1)"
  using assms by (cases r) (simp_all add: Reconcile_def)

text \<open>
  When it is not, the driver goes through \<^verbatim>\<open>updateStatus\<close>; this is every way
  the cycle can end then.
\<close>

lemma Reconcile_changed:
  assumes "SplitMetaNamespaceKey c key = Inr (ns, name)"
    and "functionbuildGet c ns name = Inr original"
    and "reconcile h c original eff = (r, fb', eff1)"
    and "\<not> semanticStatusEqual (fbStatus original) (fbStatus fb')"
    and "r \<noteq> Panic"
  shows "Reconcile h c key eff =
     (case functionbuildGetAgain c (Namespace (fbObjectMeta fb')) (Name (fbObjectMeta fb')) of
        Inl gErr \<Rightarrow>
          (Err gErr, eff1 @ [Eventf ''Warning'' ''UpdateFailed'' (Name (fbObjectMeta fb'))])
      | Inr cur \<Rightarrow>
          if reflectStatusEqual (fbStatus cur) (fbStatus fb')
          then (r, if r = Ok ()
                   then eff1 @ [Eventf ''Normal'' ''Updated'' (Name (fbObjectMeta fb'))]
                   else eff1)
          else
            (case UpdateStatus c (Namespace (fbObjectMeta fb')) (cur\<lparr>fbStatus := fbStatus fb'\<rparr>) of
               Inl uErr \<Rightarrow>
                 (Err uErr,
                  eff1 @ [UpdateStatusCall (Namespace (fbObjectMeta fb'))
                            (cur\<lparr>fbStatus := fbStatus fb'\<rparr>),
                          Eventf ''Warning'' ''UpdateFailed'' (Name (fbObjectMeta fb'))])
             | Inr u \<Rightarrow>
                 (r, eff1 @ [UpdateStatusCall (Namespace (fbObjectMeta fb'))
                               (cur\<lparr>fbStatus := fbStatus fb'\<rparr>)] @
                     (if r = Ok ()
                      then [Eventf ''Normal'' ''Updated'' (Name (fbObjectMeta fb'))] else []))))"
proof (cases r)
  case (Ok u)
  with assms(1-4) show ?thesis
    by (simp add: Reconcile_def updateStatus_def Let_def split: sum.splits)
next
  case (Err e)
  with assms(1-4) show ?thesis
    by (simp add: Reconcile_def updateStatus_def Let_def split: sum.splits)
next
  case Panic
  with assms(5) show ?thesis by simp
qed

text \<open>
  An error of \<^verbatim>\<open>reconcile\<close> ends the cycle with an error, and after \<^verbatim>\<open>reconcile\<close>
  the driver adds status writes and events only.
\<close>

lemma Reconcile_error:
  assumes "SplitMetaNamespaceKey c key = Inr (ns, name)"
    and "functionbuildGet c ns name = Inr original"
    and "reconcile h c original eff = (Err e, fb', eff1)"
  shows "\<exists>e' eff2. Reconcile h c key eff = (Err e', eff2) \<and>
     appends (\<lambda>x. writesStatus x \<or> isEvent x) eff1 eff2"
proof (cases "semanticStatusEqual (fbStatus original) (fbStatus fb')")
  case True
  with assms show ?thesis by (simp add: Reconcile_def appends_refl)
next
  case False
  obtain u eff2 where u: "updateStatus c fb' eff1 = (u, eff2)"
    by (cases "updateStatus c fb' eff1")
  have a: "appends (\<lambda>x. writesStatus x \<or> isEvent x) eff1 eff2"
    by (rule appends_mono [OF updateStatus_effects [OF u]]) simp
  show ?thesis
  proof (cases u)
    case (Ok x)
    with assms False u a show ?thesis by (simp add: Reconcile_def)
  next
    case (Err uErr)
    with assms False u show ?thesis
      by (simp add: Reconcile_def appends_snoc [OF a])
  next
    case Panic
    with u updateStatus_no_panic [of c fb' eff1] show ?thesis by simp
  qed
qed

lemma Reconcile_after_error:
  assumes "SplitMetaNamespaceKey c key = Inr (ns, name)"
    and "functionbuildGet c ns name = Inr original"
    and "reconcile h c original eff = (Err e, fb', eff1)"
    and "\<not> semanticStatusEqual (fbStatus original) (fbStatus fb')"
  shows "Reconcile h c key eff =
     (case functionbuildGetAgain c (Namespace (fbObjectMeta fb')) (Name (fbObjectMeta fb')) of
        Inl gErr \<Rightarrow>
          (Err gErr, eff1 @ [Eventf ''Warning'' ''UpdateFailed'' (Name (fbObjectMeta fb'))])
      | Inr cur \<Rightarrow>
          if reflectStatusEqual (fbStatus cur) (fbStatus fb') then (Err e, eff1)
          else
            (case UpdateStatus c (Namespace (fbObjectMeta fb')) (cur\<lparr>fbStatus := fbStatus fb'\<rparr>) of
               Inl uErr \<Rightarrow>
                 (Err uErr,
                  eff1 @ [UpdateStatusCall (Namespace (fbObjectMeta fb'))
                            (cur\<lparr>fbStatus := fbStatus fb'\<rparr>),
                          Eventf ''Warning'' ''UpdateFailed'' (Name (fbObjectMeta fb'))])
             | Inr u \<Rightarrow>
                 (Err e, eff1 @ [UpdateStatusCall (Namespace (fbObjectMeta fb'))
                                   (cur\<lparr>fbStatus := fbStatus fb'\<rparr>)])))"
  using Reconcile_changed [OF assms]
  by (simp split: sum.splits)

subsection \<open>Ownership conflicts\<close>

lemma reconcile_buildCache_not_owned:
  assumes "DeletionTimestamp (fbObjectMeta fb) = None"
    and "pvcGet c (Namespace (fbObjectMeta (defaulted h fb))) (namesBuildCache h (defaulted h fb)) =
           Inr bc"
    and "\<not> IsControlledBy (pvcObjectMeta bc) (fbObjectMeta (defaulted h fb))"
  shows "reconcile h c fb eff =
     (Err (DoesNotOwn (Name (fbObjectMeta (defaulted h fb))) ''PersistentVolumeClaim''
            (namesBuildCache h (defaulted h fb))),
      (defaulted h fb)\<lparr>fbStatus :=
         MarkBuildCacheNotOwned h (namesBuildCache h (defaulted h fb))
           (fbStatus (defaulted h fb))\<rparr>,
      eff)"
  using assms
  by (simp add: reconcile_def reconcileChildren_def buildCachePart_def Let_def)

lemma reconcile_build_not_owned:
  assumes "DeletionTimestamp (fbObjectMeta fb) = None"
    and "buildCachePart h c (defaulted h fb) eff = Inr (buildCache, fb3, eff1)"
    and "knbuildGet c (Namespace (fbObjectMeta (buildCacheStatus h buildCache fb3)))
           (namesBuild h (buildCacheStatus h buildCache fb3)) = Inr b"
    and "\<not> IsControlledBy (buildObjectMeta b) (fbObjectMeta (buildCacheStatus h buildCache fb3))"
  shows "reconcile h c fb eff =
     (Err (DoesNotOwn (Name (fbObjectMeta (buildCacheStatus h buildCache fb3))) ''Build''
            (namesBuild h (buildCacheStatus h buildCache fb3))),
      (buildCacheStatus h buildCache fb3)\<lparr>fbStatus :=
         MarkBuildNotOwned h (namesBuild h (buildCacheStatus h buildCache fb3))
           (fbStatus (buildCacheStatus h buildCache fb3))\<rparr>,
      eff1)"
  using assms
  by (simp add: reconcile_def reconcileChildren_def buildPart_def Let_def)

text \<open>
  C2, as amended. The FunctionBuild is not being deleted. (a) When the
  PersistentVolumeClaim with the canonical name exists and the FunctionBuild
  does not control it, \<^verbatim>\<open>reconcile\<close> issues no call at all (the effects are as
  before), the status is the defaulted one after \<^verbatim>\<open>MarkBuildCacheNotOwned\<close> with
  that name, and the error returned is the conflict error naming the owner and
  the claim. (b) When the build cache step went through and the Build with the
  canonical name exists and is not controlled, \<^verbatim>\<open>reconcile\<close> issues no call
  after the build cache step, none of the calls of the cycle touches a Build,
  the status is the one after \<^verbatim>\<open>MarkBuildNotOwned\<close> with that name, and the error
  is the conflict error naming the Build. (c) Whenever \<^verbatim>\<open>reconcile\<close> returns an
  error \<open>e\<close>, as in (a) and (b), the cycle ends with an error and the driver
  adds only status writes and events. The error of the cycle is \<open>e\<close> when the
  computed status is semantically the fetched one, when the second read
  already has the computed status, and when the status write succeeds; it is
  the error of the second read when that read fails, and the error of the
  status write when the write fails: then \<open>e\<close> is not returned.
\<close>

theorem not_owned_conflict:
  assumes "DeletionTimestamp (fbObjectMeta fb) = None"
  shows "(\<forall>bc. pvcGet c (Namespace (fbObjectMeta (defaulted h fb)))
              (namesBuildCache h (defaulted h fb)) = Inr bc \<and>
            \<not> IsControlledBy (pvcObjectMeta bc) (fbObjectMeta (defaulted h fb)) \<longrightarrow>
       reconcile h c fb eff =
         (Err (DoesNotOwn (Name (fbObjectMeta (defaulted h fb))) ''PersistentVolumeClaim''
                (namesBuildCache h (defaulted h fb))),
          (defaulted h fb)\<lparr>fbStatus :=
             MarkBuildCacheNotOwned h (namesBuildCache h (defaulted h fb))
               (fbStatus (defaulted h fb))\<rparr>,
          eff)) \<and>
    (\<forall>buildCache fb3 eff1 b.
       buildCachePart h c (defaulted h fb) eff = Inr (buildCache, fb3, eff1) \<and>
       knbuildGet c (Namespace (fbObjectMeta (buildCacheStatus h buildCache fb3)))
         (namesBuild h (buildCacheStatus h buildCache fb3)) = Inr b \<and>
       \<not> IsControlledBy (buildObjectMeta b) (fbObjectMeta (buildCacheStatus h buildCache fb3)) \<longrightarrow>
       reconcile h c fb eff =
         (Err (DoesNotOwn (Name (fbObjectMeta (buildCacheStatus h buildCache fb3))) ''Build''
                (namesBuild h (buildCacheStatus h buildCache fb3))),
          (buildCacheStatus h buildCache fb3)\<lparr>fbStatus :=
             MarkBuildNotOwned h (namesBuild h (buildCacheStatus h buildCache fb3))
               (fbStatus (buildCacheStatus h buildCache fb3))\<rparr>,
          eff1) \<and>
       appends (\<lambda>e. \<not> touchesBuild e) eff eff1) \<and>
    (\<forall>e fb' eff1 ns name.
       reconcile h c fb eff = (Err e, fb', eff1) \<and>
       SplitMetaNamespaceKey c key = Inr (ns, name) \<and> functionbuildGet c ns name = Inr fb \<longrightarrow>
       (\<exists>e' eff2. Reconcile h c key eff = (Err e', eff2) \<and>
          appends (\<lambda>x. writesStatus x \<or> isEvent x) eff1 eff2) \<and>
       (semanticStatusEqual (fbStatus fb) (fbStatus fb') \<longrightarrow>
          Reconcile h c key eff = (Err e, eff1)) \<and>
       (\<not> semanticStatusEqual (fbStatus fb) (fbStatus fb') \<longrightarrow>
          Reconcile h c key eff =
            (case functionbuildGetAgain c (Namespace (fbObjectMeta fb')) (Name (fbObjectMeta fb')) of
               Inl gErr \<Rightarrow>
                 (Err gErr, eff1 @ [Eventf ''Warning'' ''UpdateFailed'' (Name (fbObjectMeta fb'))])
             | Inr cur \<Rightarrow>
                 if reflectStatusEqual (fbStatus cur) (fbStatus fb') then (Err e, eff1)
                 else
                   (case UpdateStatus c (Namespace (fbObjectMeta fb'))
                           (cur\<lparr>fbStatus := fbStatus fb'\<rparr>) of
                      Inl uErr \<Rightarrow>
                        (Err uErr,
                         eff1 @ [UpdateStatusCall (Namespace (fbObjectMeta fb'))
                                   (cur\<lparr>fbStatus := fbStatus fb'\<rparr>),
                                 Eventf ''Warning'' ''UpdateFailed'' (Name (fbObjectMeta fb'))])
                    | Inr u \<Rightarrow>
                        (Err e, eff1 @ [UpdateStatusCall (Namespace (fbObjectMeta fb'))
                                          (cur\<lparr>fbStatus := fbStatus fb'\<rparr>)])))))"
proof (intro conjI allI impI)
  fix bc
  assume "pvcGet c (Namespace (fbObjectMeta (defaulted h fb)))
              (namesBuildCache h (defaulted h fb)) = Inr bc \<and>
            \<not> IsControlledBy (pvcObjectMeta bc) (fbObjectMeta (defaulted h fb))"
  then show "reconcile h c fb eff =
         (Err (DoesNotOwn (Name (fbObjectMeta (defaulted h fb))) ''PersistentVolumeClaim''
                (namesBuildCache h (defaulted h fb))),
          (defaulted h fb)\<lparr>fbStatus :=
             MarkBuildCacheNotOwned h (namesBuildCache h (defaulted h fb))
               (fbStatus (defaulted h fb))\<rparr>,
          eff)"
    using reconcile_buildCache_not_owned [OF assms] by blast
next
  fix buildCache fb3 eff1 b
  assume a: "buildCachePart h c (defaulted h fb) eff = Inr (buildCache, fb3, eff1) \<and>
       knbuildGet c (Namespace (fbObjectMeta (buildCacheStatus h buildCache fb3)))
         (namesBuild h (buildCacheStatus h buildCache fb3)) = Inr b \<and>
       \<not> IsControlledBy (buildObjectMeta b) (fbObjectMeta (buildCacheStatus h buildCache fb3))"
  then show "reconcile h c fb eff =
         (Err (DoesNotOwn (Name (fbObjectMeta (buildCacheStatus h buildCache fb3))) ''Build''
                (namesBuild h (buildCacheStatus h buildCache fb3))),
          (buildCacheStatus h buildCache fb3)\<lparr>fbStatus :=
             MarkBuildNotOwned h (namesBuild h (buildCacheStatus h buildCache fb3))
               (fbStatus (buildCacheStatus h buildCache fb3))\<rparr>,
          eff1)"
    using reconcile_build_not_owned [OF assms] by blast
  from a have "appends (\<lambda>e. touchesPVC e \<or> isEvent e) eff eff1"
    using buildCachePart_effects by blast
  then show "appends (\<lambda>e. \<not> touchesBuild e) eff eff1"
    by (rule appends_mono) (auto elim: touchesPVC.elims isEvent.elims)
next
  fix e fb' eff1 ns name
  assume "reconcile h c fb eff = (Err e, fb', eff1) \<and>
       SplitMetaNamespaceKey c key = Inr (ns, name) \<and> functionbuildGet c ns name = Inr fb"
  then show "\<exists>e' eff2. Reconcile h c key eff = (Err e', eff2) \<and>
          appends (\<lambda>x. writesStatus x \<or> isEvent x) eff1 eff2"
    using Reconcile_error by blast
next
  fix e fb' eff1 ns name
  assume "reconcile h c fb eff = (Err e, fb', eff1) \<and>
       SplitMetaNamespaceKey c key = Inr (ns, name) \<and> functionbuildGet c ns name = Inr fb"
    and "semanticStatusEqual (fbStatus fb) (fbStatus fb')"
  then show "Reconcile h c key eff = (Err e, eff1)"
    using Reconcile_unchanged by blast
next
  fix e fb' eff1 ns name
  assume a: "reconcile h c fb eff = (Err e, fb', eff1) \<and>
       SplitMetaNamespaceKey c key = Inr (ns, name) \<and> functionbuildGet c ns name = Inr fb"
    and ne: "\<not> semanticStatusEqual (fbStatus fb) (fbStatus fb')"
  from a have s: "SplitMetaNamespaceKey c key = Inr (ns, name)"
    and g: "functionbuildGet c ns name = Inr fb"
    and r: "reconcile h c fb eff = (Err e, fb', eff1)"
    by simp_all
  show "Reconcile h c key eff =
            (case functionbuildGetAgain c (Namespace (fbObjectMeta fb')) (Name (fbObjectMeta fb')) of
               Inl gErr \<Rightarrow>
                 (Err gErr, eff1 @ [Eventf ''Warning'' ''UpdateFailed'' (Name (fbObjectMeta fb'))])
             | Inr cur \<Rightarrow>
                 if reflectStatusEqual (fbStatus cur) (fbStatus fb') then (Err e, eff1)
                 else
                   (case UpdateStatus c (Namespace (fbObjectMeta fb'))
                           (cur\<lparr>fbStatus := fbStatus fb'\<rparr>) of
                      Inl uErr \<Rightarrow>
                        (Err uErr,
                         eff1 @ [UpdateStatusCall (Namespace (fbObjectMeta fb'))
                                   (cur\<lparr>fbStatus := fbStatus fb'\<rparr>),
                                 Eventf ''Warning'' ''UpdateFailed'' (Name (fbObjectMeta fb'))])
                    | Inr u \<Rightarrow>
                        (Err e, eff1 @ [UpdateStatusCall (Namespace (fbObjectMeta fb'))
                                          (cur\<lparr>fbStatus := fbStatus fb'\<rparr>)])))"
    using Reconcile_after_error [OF s g r ne] .
qed

theorem not_owned_conflict_witness:
  "DeletionTimestamp (fbObjectMeta testFunctionBuild) = None \<and>
   pvcGet foreignCacheCluster ''ns'' ''cache-fb'' = Inr foreignCache \<and>
   \<not> IsControlledBy (pvcObjectMeta foreignCache) (fbObjectMeta testFunctionBuild) \<and>
   reconcile exampleHelpers foreignCacheCluster testFunctionBuild [] =
     (Err (DoesNotOwn ''fb'' ''PersistentVolumeClaim'' ''cache-fb''),
      testFunctionBuild\<lparr>fbStatus := cacheNotOwnedStatus\<rparr>, []) \<and>
   GetCondition ''BuildCacheReady'' (elements (Conditions cacheNotOwnedStatus)) =
     Some \<lparr>Type = ''BuildCacheReady'', Status = ConditionFalse, Reason = ''NotOwned'',
           Message = notOwnedMessage ''PersistentVolumeClaim'' ''cache-fb'' ''FunctionBuild''\<rparr> \<and>
   SplitMetaNamespaceKey foreignCacheCluster ''ns/fb'' = Inr (''ns'', ''fb'') \<and>
   functionbuildGet foreignCacheCluster ''ns'' ''fb'' = Inr testFunctionBuild \<and>
   \<not> semanticStatusEqual (fbStatus testFunctionBuild) cacheNotOwnedStatus \<and>
   Reconcile exampleHelpers foreignCacheCluster ''ns/fb'' [] =
     (Err (DoesNotOwn ''fb'' ''PersistentVolumeClaim'' ''cache-fb''),
      [UpdateStatusCall ''ns'' (testFunctionBuild\<lparr>fbStatus := cacheNotOwnedStatus\<rparr>)]) \<and>
   knbuildGet foreignBuildCluster ''ns'' ''build-fb'' = Inr foreignBuild \<and>
   \<not> IsControlledBy (buildObjectMeta foreignBuild) (fbObjectMeta testFunctionBuild) \<and>
   reconcile exampleHelpers foreignBuildCluster testFunctionBuild [] =
     (Err (DoesNotOwn ''fb'' ''Build'' ''build-fb''),
      testFunctionBuild\<lparr>fbStatus := buildNotOwnedStatus\<rparr>,
      [CreatePVC ''ns'' (desiredCache testFunctionBuild),
       Eventf ''Normal'' ''Created'' ''cache-fb''])"
proof -
  let ?d = "defaulted exampleHelpers testFunctionBuild"
  let ?e = "DoesNotOwn ''fb'' ''PersistentVolumeClaim'' ''cache-fb''"
  let ?fb = "testFunctionBuild\<lparr>fbStatus := cacheNotOwnedStatus\<rparr>"
  have 1: "DeletionTimestamp (fbObjectMeta testFunctionBuild) = None"
    by code_simp
  note T = not_owned_conflict [OF 1, where h = exampleHelpers and eff = "[]" and key = "''ns/fb''"]
  have 2: "pvcGet foreignCacheCluster (Namespace (fbObjectMeta ?d))
      (namesBuildCache exampleHelpers ?d) = Inr foreignCache"
    by code_simp
  have 3: "\<not> IsControlledBy (pvcObjectMeta foreignCache) (fbObjectMeta ?d)"
    by code_simp
  from T [where c = foreignCacheCluster] 2 3
  have "reconcile exampleHelpers foreignCacheCluster testFunctionBuild [] =
      (Err (DoesNotOwn (Name (fbObjectMeta ?d)) ''PersistentVolumeClaim''
             (namesBuildCache exampleHelpers ?d)),
       ?d\<lparr>fbStatus := MarkBuildCacheNotOwned exampleHelpers (namesBuildCache exampleHelpers ?d)
              (fbStatus ?d)\<rparr>,
       [])"
    by blast
  moreover have "((Err (DoesNotOwn (Name (fbObjectMeta ?d)) ''PersistentVolumeClaim''
             (namesBuildCache exampleHelpers ?d)),
       ?d\<lparr>fbStatus := MarkBuildCacheNotOwned exampleHelpers (namesBuildCache exampleHelpers ?d)
              (fbStatus ?d)\<rparr>,
       []) :: unit result \<times> FunctionBuild \<times> effect list) =
      (Err ?e, ?fb, [])"
    by code_simp
  ultimately have A: "reconcile exampleHelpers foreignCacheCluster testFunctionBuild [] =
      (Err ?e, ?fb, [])"
    by (rule trans)
  have 4: "SplitMetaNamespaceKey foreignCacheCluster ''ns/fb'' = Inr (''ns'', ''fb'')"
    and 5: "functionbuildGet foreignCacheCluster ''ns'' ''fb'' = Inr testFunctionBuild"
    and 6: "\<not> semanticStatusEqual (fbStatus testFunctionBuild) (fbStatus ?fb)"
    by code_simp+
  let ?after = "case functionbuildGetAgain foreignCacheCluster (Namespace (fbObjectMeta ?fb))
                       (Name (fbObjectMeta ?fb)) of
       Inl gErr \<Rightarrow>
         (Err gErr, [] @ [Eventf ''Warning'' ''UpdateFailed'' (Name (fbObjectMeta ?fb))])
     | Inr cur \<Rightarrow>
         if reflectStatusEqual (fbStatus cur) (fbStatus ?fb) then (Err ?e, [])
         else
           (case UpdateStatus foreignCacheCluster (Namespace (fbObjectMeta ?fb))
                   (cur\<lparr>fbStatus := fbStatus ?fb\<rparr>) of
              Inl uErr \<Rightarrow>
                (Err uErr,
                 [] @ [UpdateStatusCall (Namespace (fbObjectMeta ?fb))
                         (cur\<lparr>fbStatus := fbStatus ?fb\<rparr>),
                       Eventf ''Warning'' ''UpdateFailed'' (Name (fbObjectMeta ?fb))])
            | Inr u \<Rightarrow>
                (Err ?e, [] @ [UpdateStatusCall (Namespace (fbObjectMeta ?fb))
                                 (cur\<lparr>fbStatus := fbStatus ?fb\<rparr>)]))"
  from T [where c = foreignCacheCluster] A 4 5 6
  have "Reconcile exampleHelpers foreignCacheCluster ''ns/fb'' [] = ?after"
    by blast
  moreover have "(?after :: unit result \<times> effect list) = (Err ?e, [UpdateStatusCall ''ns'' ?fb])"
    by code_simp
  ultimately have B: "Reconcile exampleHelpers foreignCacheCluster ''ns/fb'' [] =
      (Err ?e, [UpdateStatusCall ''ns'' ?fb])"
    by (rule trans)
  let ?eff1 = "[CreatePVC ''ns'' (desiredCache testFunctionBuild),
      Eventf ''Normal'' ''Created'' ''cache-fb'']"
  let ?f = "buildCacheStatus exampleHelpers (Some (desiredCache testFunctionBuild)) ?d"
  have 7: "buildCachePart exampleHelpers foreignBuildCluster ?d [] =
      Inr (Some (desiredCache testFunctionBuild), ?d, ?eff1)"
    by code_simp
  have 8: "knbuildGet foreignBuildCluster (Namespace (fbObjectMeta ?f))
      (namesBuild exampleHelpers ?f) = Inr foreignBuild"
    by code_simp
  have 9: "\<not> IsControlledBy (buildObjectMeta foreignBuild) (fbObjectMeta ?f)"
    by code_simp
  from T [where c = foreignBuildCluster] 7 8 9
  have "reconcile exampleHelpers foreignBuildCluster testFunctionBuild [] =
      (Err (DoesNotOwn (Name (fbObjectMeta ?f)) ''Build'' (namesBuild exampleHelpers ?f)),
       ?f\<lparr>fbStatus := MarkBuildNotOwned exampleHelpers (namesBuild exampleHelpers ?f)
              (fbStatus ?f)\<rparr>,
       ?eff1)"
    by blast
  moreover have "((Err (DoesNotOwn (Name (fbObjectMeta ?f)) ''Build'' (namesBuild exampleHelpers ?f)),
       ?f\<lparr>fbStatus := MarkBuildNotOwned exampleHelpers (namesBuild exampleHelpers ?f)
              (fbStatus ?f)\<rparr>,
       ?eff1) :: unit result \<times> FunctionBuild \<times> effect list) =
      (Err (DoesNotOwn ''fb'' ''Build'' ''build-fb''),
       testFunctionBuild\<lparr>fbStatus := buildNotOwnedStatus\<rparr>, ?eff1)"
    by code_simp
  ultimately have C: "reconcile exampleHelpers foreignBuildCluster testFunctionBuild [] =
      (Err (DoesNotOwn ''fb'' ''Build'' ''build-fb''),
       testFunctionBuild\<lparr>fbStatus := buildNotOwnedStatus\<rparr>, ?eff1)"
    by (rule trans)
  have D: "pvcGet foreignCacheCluster ''ns'' ''cache-fb'' = Inr foreignCache"
    "\<not> IsControlledBy (pvcObjectMeta foreignCache) (fbObjectMeta testFunctionBuild)"
    "GetCondition ''BuildCacheReady'' (elements (Conditions cacheNotOwnedStatus)) =
     Some \<lparr>Type = ''BuildCacheReady'', Status = ConditionFalse, Reason = ''NotOwned'',
           Message = notOwnedMessage ''PersistentVolumeClaim'' ''cache-fb'' ''FunctionBuild''\<rparr>"
    "knbuildGet foreignBuildCluster ''ns'' ''build-fb'' = Inr foreignBuild"
    "\<not> IsControlledBy (buildObjectMeta foreignBuild) (fbObjectMeta testFunctionBuild)"
    "\<not> semanticStatusEqual (fbStatus testFunctionBuild) cacheNotOwnedStatus"
    by code_simp+
  from 1 A B C D 4 5 show ?thesis by blast
qed

text \<open>
  C2 as it is stated fails: the cycle does not always end with the conflict
  error. In \<open>statusWriteFails\<close> the PersistentVolumeClaim with the canonical name
  exists and the FunctionBuild does not control it; \<^verbatim>\<open>reconcile\<close> returns the
  conflict error, the status write that follows is refused, and the cycle
  returns the error of the status write, which is not the conflict error.
\<close>

theorem not_owned_conflict_counterexample:
  "DeletionTimestamp (fbObjectMeta testFunctionBuild) = None \<and>
   SplitMetaNamespaceKey statusWriteFails ''ns/fb'' = Inr (''ns'', ''fb'') \<and>
   functionbuildGet statusWriteFails ''ns'' ''fb'' = Inr testFunctionBuild \<and>
   pvcGet statusWriteFails ''ns'' ''cache-fb'' = Inr foreignCache \<and>
   \<not> IsControlledBy (pvcObjectMeta foreignCache) (fbObjectMeta testFunctionBuild) \<and>
   reconcile exampleHelpers statusWriteFails testFunctionBuild [] =
     (Err (DoesNotOwn ''fb'' ''PersistentVolumeClaim'' ''cache-fb''),
      testFunctionBuild\<lparr>fbStatus := cacheNotOwnedStatus\<rparr>, []) \<and>
   Reconcile exampleHelpers statusWriteFails ''ns/fb'' [] =
     (Err (OtherError ''the object has been modified''),
      [UpdateStatusCall ''ns'' (testFunctionBuild\<lparr>fbStatus := cacheNotOwnedStatus\<rparr>),
       Eventf ''Warning'' ''UpdateFailed'' ''fb'']) \<and>
   OtherError ''the object has been modified'' \<noteq>
     DoesNotOwn ''fb'' ''PersistentVolumeClaim'' ''cache-fb''"
  by code_simp

subsection \<open>Digest resolution\<close>





subsection \<open>Status writes of the driver\<close>

text \<open>
  C9, as amended. The key parses, the fetch gives \<open>original\<close>, and \<^verbatim>\<open>reconcile\<close>
  returns the error \<open>e\<close> with a status that is not semantically the fetched
  one. Then the driver calls \<^verbatim>\<open>updateStatus\<close> before it returns, and
  \<^verbatim>\<open>updateStatus\<close> reads the FunctionBuild again. If that read fails, no status
  write is issued and the cycle returns the read's error, not \<open>e\<close>. If the
  status read is already the computed one by \<^verbatim>\<open>reflect.DeepEqual\<close>, no status
  write is issued and the cycle returns \<open>e\<close>. Otherwise the driver issues the
  status write of the object read with the computed status, and the cycle
  returns \<open>e\<close> when the write succeeds and the write's error when it fails.
  \<^verbatim>\<open>reconcile\<close> itself issues no status write.
\<close>

theorem status_persisted_before_error:
  assumes "SplitMetaNamespaceKey c key = Inr (ns, name)"
    and "functionbuildGet c ns name = Inr original"
    and "reconcile h c original eff = (Err e, fb', eff1)"
    and "\<not> semanticStatusEqual (fbStatus original) (fbStatus fb')"
  shows "(\<forall>gErr. functionbuildGetAgain c (Namespace (fbObjectMeta fb')) (Name (fbObjectMeta fb')) =
              Inl gErr \<longrightarrow>
       Reconcile h c key eff =
         (Err gErr, eff1 @ [Eventf ''Warning'' ''UpdateFailed'' (Name (fbObjectMeta fb'))])) \<and>
    (\<forall>cur. functionbuildGetAgain c (Namespace (fbObjectMeta fb')) (Name (fbObjectMeta fb')) =
              Inr cur \<longrightarrow>
       (reflectStatusEqual (fbStatus cur) (fbStatus fb') \<longrightarrow>
          Reconcile h c key eff = (Err e, eff1)) \<and>
       (\<not> reflectStatusEqual (fbStatus cur) (fbStatus fb') \<longrightarrow>
          (\<forall>u. UpdateStatus c (Namespace (fbObjectMeta fb')) (cur\<lparr>fbStatus := fbStatus fb'\<rparr>) =
                  Inr u \<longrightarrow>
             Reconcile h c key eff =
               (Err e, eff1 @ [UpdateStatusCall (Namespace (fbObjectMeta fb'))
                                 (cur\<lparr>fbStatus := fbStatus fb'\<rparr>)])) \<and>
          (\<forall>uErr. UpdateStatus c (Namespace (fbObjectMeta fb')) (cur\<lparr>fbStatus := fbStatus fb'\<rparr>) =
                  Inl uErr \<longrightarrow>
             Reconcile h c key eff =
               (Err uErr,
                eff1 @ [UpdateStatusCall (Namespace (fbObjectMeta fb'))
                          (cur\<lparr>fbStatus := fbStatus fb'\<rparr>),
                        Eventf ''Warning'' ''UpdateFailed'' (Name (fbObjectMeta fb'))])))) \<and>
    (\<forall>x\<in>set eff1. writesStatus x \<longrightarrow> x \<in> set eff)"
proof -
  have "appends (\<lambda>e. \<not> writesStatus e) eff eff1"
    using reconcile_effects [OF assms(3)] .
  then have quiet: "\<forall>x\<in>set eff1. writesStatus x \<longrightarrow> x \<in> set eff"
    by (auto simp: appends_def)
  from Reconcile_after_error [OF assms] quiet show ?thesis
    by (simp split: sum.splits)
qed

theorem status_persisted_before_error_witness:
  "SplitMetaNamespaceKey foreignCacheCluster ''ns/fb'' = Inr (''ns'', ''fb'') \<and>
   functionbuildGet foreignCacheCluster ''ns'' ''fb'' = Inr testFunctionBuild \<and>
   reconcile exampleHelpers foreignCacheCluster testFunctionBuild [] =
     (Err (DoesNotOwn ''fb'' ''PersistentVolumeClaim'' ''cache-fb''),
      testFunctionBuild\<lparr>fbStatus := cacheNotOwnedStatus\<rparr>, []) \<and>
   \<not> semanticStatusEqual (fbStatus testFunctionBuild) cacheNotOwnedStatus \<and>
   functionbuildGetAgain foreignCacheCluster ''ns'' ''fb'' = Inr testFunctionBuild \<and>
   \<not> reflectStatusEqual (fbStatus testFunctionBuild) cacheNotOwnedStatus \<and>
   Reconcile exampleHelpers foreignCacheCluster ''ns/fb'' [] =
     (Err (DoesNotOwn ''fb'' ''PersistentVolumeClaim'' ''cache-fb''),
      [UpdateStatusCall ''ns'' (testFunctionBuild\<lparr>fbStatus := cacheNotOwnedStatus\<rparr>)]) \<and>
   Reconcile exampleHelpers statusWriteFails ''ns/fb'' [] =
     (Err (OtherError ''the object has been modified''),
      [UpdateStatusCall ''ns'' (testFunctionBuild\<lparr>fbStatus := cacheNotOwnedStatus\<rparr>),
       Eventf ''Warning'' ''UpdateFailed'' ''fb'']) \<and>
   functionbuildGetAgain caughtUpCluster ''ns'' ''fb'' =
     Inr (testFunctionBuild\<lparr>fbStatus := cacheNotOwnedStatus\<rparr>) \<and>
   Reconcile exampleHelpers caughtUpCluster ''ns/fb'' [] =
     (Err (DoesNotOwn ''fb'' ''PersistentVolumeClaim'' ''cache-fb''), []) \<and>
   functionbuildGetAgain (foreignCacheCluster\<lparr>functionbuildGetAgain := (\<lambda>ns n. Inl NotFound)\<rparr>)
     ''ns'' ''fb'' = Inl NotFound \<and>
   Reconcile exampleHelpers
     (foreignCacheCluster\<lparr>functionbuildGetAgain := (\<lambda>ns n. Inl NotFound)\<rparr>) ''ns/fb'' [] =
     (Err NotFound, [Eventf ''Warning'' ''UpdateFailed'' ''fb''])"
proof -
  let ?fb = "testFunctionBuild\<lparr>fbStatus := cacheNotOwnedStatus\<rparr>"
  let ?e = "DoesNotOwn ''fb'' ''PersistentVolumeClaim'' ''cache-fb''"
  let ?gone = "foreignCacheCluster\<lparr>functionbuildGetAgain := (\<lambda>ns n. Inl NotFound)\<rparr>"
  have 1: "SplitMetaNamespaceKey foreignCacheCluster ''ns/fb'' = Inr (''ns'', ''fb'')"
    and 2: "functionbuildGet foreignCacheCluster ''ns'' ''fb'' = Inr testFunctionBuild"
    and 3: "reconcile exampleHelpers foreignCacheCluster testFunctionBuild [] = (Err ?e, ?fb, [])"
    and 4: "\<not> semanticStatusEqual (fbStatus testFunctionBuild) (fbStatus ?fb)"
    by code_simp+
  have 5: "functionbuildGetAgain foreignCacheCluster (Namespace (fbObjectMeta ?fb))
      (Name (fbObjectMeta ?fb)) = Inr testFunctionBuild"
    and 6: "\<not> reflectStatusEqual (fbStatus testFunctionBuild) (fbStatus ?fb)"
    and 7: "UpdateStatus foreignCacheCluster (Namespace (fbObjectMeta ?fb))
      (testFunctionBuild\<lparr>fbStatus := fbStatus ?fb\<rparr>) = Inr ?fb"
    by code_simp+
  from status_persisted_before_error [OF 1 2 3 4] 5 6 7
  have "Reconcile exampleHelpers foreignCacheCluster ''ns/fb'' [] =
      (Err ?e, [] @ [UpdateStatusCall (Namespace (fbObjectMeta ?fb))
                       (testFunctionBuild\<lparr>fbStatus := fbStatus ?fb\<rparr>)])"
    by blast
  moreover have "((Err ?e, [] @ [UpdateStatusCall (Namespace (fbObjectMeta ?fb))
                       (testFunctionBuild\<lparr>fbStatus := fbStatus ?fb\<rparr>)])
        :: unit result \<times> effect list) =
      (Err ?e, [UpdateStatusCall ''ns'' ?fb])"
    by code_simp
  ultimately have A: "Reconcile exampleHelpers foreignCacheCluster ''ns/fb'' [] =
      (Err ?e, [UpdateStatusCall ''ns'' ?fb])"
    by (rule trans)
  have q1: "SplitMetaNamespaceKey statusWriteFails ''ns/fb'' = Inr (''ns'', ''fb'')"
    and q2: "functionbuildGet statusWriteFails ''ns'' ''fb'' = Inr testFunctionBuild"
    and q3: "reconcile exampleHelpers statusWriteFails testFunctionBuild [] = (Err ?e, ?fb, [])"
    by code_simp+
  have q5: "functionbuildGetAgain statusWriteFails (Namespace (fbObjectMeta ?fb))
      (Name (fbObjectMeta ?fb)) = Inr testFunctionBuild"
    and q7: "UpdateStatus statusWriteFails (Namespace (fbObjectMeta ?fb))
      (testFunctionBuild\<lparr>fbStatus := fbStatus ?fb\<rparr>) =
      Inl (OtherError ''the object has been modified'')"
    by code_simp+
  from status_persisted_before_error [OF q1 q2 q3 4] q5 6 q7
  have "Reconcile exampleHelpers statusWriteFails ''ns/fb'' [] =
      (Err (OtherError ''the object has been modified''),
       [] @ [UpdateStatusCall (Namespace (fbObjectMeta ?fb))
               (testFunctionBuild\<lparr>fbStatus := fbStatus ?fb\<rparr>),
             Eventf ''Warning'' ''UpdateFailed'' (Name (fbObjectMeta ?fb))])"
    by blast
  moreover have "((Err (OtherError ''the object has been modified''),
       [] @ [UpdateStatusCall (Namespace (fbObjectMeta ?fb))
               (testFunctionBuild\<lparr>fbStatus := fbStatus ?fb\<rparr>),
             Eventf ''Warning'' ''UpdateFailed'' (Name (fbObjectMeta ?fb))])
        :: unit result \<times> effect list) =
      (Err (OtherError ''the object has been modified''),
       [UpdateStatusCall ''ns'' ?fb, Eventf ''Warning'' ''UpdateFailed'' ''fb''])"
    by code_simp
  ultimately have B: "Reconcile exampleHelpers statusWriteFails ''ns/fb'' [] =
      (Err (OtherError ''the object has been modified''),
       [UpdateStatusCall ''ns'' ?fb, Eventf ''Warning'' ''UpdateFailed'' ''fb''])"
    by (rule trans)
  have c1: "SplitMetaNamespaceKey caughtUpCluster ''ns/fb'' = Inr (''ns'', ''fb'')"
    and c2: "functionbuildGet caughtUpCluster ''ns'' ''fb'' = Inr testFunctionBuild"
    and c3: "reconcile exampleHelpers caughtUpCluster testFunctionBuild [] = (Err ?e, ?fb, [])"
    by code_simp+
  have c5: "functionbuildGetAgain caughtUpCluster (Namespace (fbObjectMeta ?fb))
      (Name (fbObjectMeta ?fb)) = Inr ?fb"
    and c6: "reflectStatusEqual (fbStatus ?fb) (fbStatus ?fb)"
    by code_simp+
  from status_persisted_before_error [OF c1 c2 c3 4] c5 c6
  have C: "Reconcile exampleHelpers caughtUpCluster ''ns/fb'' [] = (Err ?e, [])"
    by blast
  have g1: "SplitMetaNamespaceKey ?gone ''ns/fb'' = Inr (''ns'', ''fb'')"
    and g2: "functionbuildGet ?gone ''ns'' ''fb'' = Inr testFunctionBuild"
    and g3: "reconcile exampleHelpers ?gone testFunctionBuild [] = (Err ?e, ?fb, [])"
    by code_simp+
  have g5: "functionbuildGetAgain ?gone (Namespace (fbObjectMeta ?fb))
      (Name (fbObjectMeta ?fb)) = Inl NotFound"
    by code_simp
  from status_persisted_before_error [OF g1 g2 g3 4] g5
  have "Reconcile exampleHelpers ?gone ''ns/fb'' [] =
      (Err NotFound, [] @ [Eventf ''Warning'' ''UpdateFailed'' (Name (fbObjectMeta ?fb))])"
    by blast
  moreover have "((Err NotFound,
        [] @ [Eventf ''Warning'' ''UpdateFailed'' (Name (fbObjectMeta ?fb))])
        :: unit result \<times> effect list) =
      (Err NotFound, [Eventf ''Warning'' ''UpdateFailed'' ''fb''])"
    by code_simp
  ultimately have D: "Reconcile exampleHelpers ?gone ''ns/fb'' [] =
      (Err NotFound, [Eventf ''Warning'' ''UpdateFailed'' ''fb''])"
    by (rule trans)
  have E: "\<not> semanticStatusEqual (fbStatus testFunctionBuild) cacheNotOwnedStatus"
    "functionbuildGetAgain foreignCacheCluster ''ns'' ''fb'' = Inr testFunctionBuild"
    "\<not> reflectStatusEqual (fbStatus testFunctionBuild) cacheNotOwnedStatus"
    "functionbuildGetAgain caughtUpCluster ''ns'' ''fb'' = Inr ?fb"
    "functionbuildGetAgain ?gone ''ns'' ''fb'' = Inl NotFound"
    by code_simp+
  from 1 2 3 A B C D E show ?thesis by blast
qed

text \<open>
  C9 as it is stated fails: an error of the resolver is returned without a
  status write. In \<open>caughtUpResolveFails\<close> the resolver fails, \<^verbatim>\<open>reconcile\<close>
  returns its error with a status that is not the fetched one, the second read
  already has that status, and the cycle returns the resolver's error: its one
  effect is the call of the resolver.
\<close>

theorem status_persisted_before_error_counterexample:
  "SplitMetaNamespaceKey caughtUpResolveFails ''ns/fb'' = Inr (''ns'', ''fb'') \<and>
   functionbuildGet caughtUpResolveFails ''ns'' ''fb'' = Inr testFunctionBuild \<and>
   reconcile exampleHelpers caughtUpResolveFails testFunctionBuild [] =
     (Err (OtherError ''unauthorized''), testFunctionBuild\<lparr>fbStatus := imageMissingStatus\<rparr>,
      [ResolveCall ''registry/img'' (''ns'', ''riff-build'') skipRegistries]) \<and>
   \<not> semanticStatusEqual (fbStatus testFunctionBuild) imageMissingStatus \<and>
   Reconcile exampleHelpers caughtUpResolveFails ''ns/fb'' [] =
     (Err (OtherError ''unauthorized''),
      [ResolveCall ''registry/img'' (''ns'', ''riff-build'') skipRegistries])"
  by code_simp

text \<open>
  C4, as amended. The key parses, the fetch gives \<open>original\<close>, and \<^verbatim>\<open>reconcile\<close>,
  started with no effects, returns (it does not panic) with the FunctionBuild
  \<open>fb'\<close>. When the computed status is semantically the fetched one, the driver
  adds nothing to what \<^verbatim>\<open>reconcile\<close> did and returns what it returned: no status
  write is issued. When it is not, \<^verbatim>\<open>updateStatus\<close> reads the FunctionBuild
  again: if that read fails, the cycle returns the read's error after an
  \<^verbatim>\<open>UpdateFailed\<close> event and issues no status write; if the status read is
  already the computed one by \<^verbatim>\<open>reflect.DeepEqual\<close>, the cycle returns what
  \<^verbatim>\<open>reconcile\<close> returned and issues no status write. So the cycle issues a status
  write exactly when the computed status is not semantically the fetched one
  and the second read succeeds with a status that \<^verbatim>\<open>reflect.DeepEqual\<close> tells
  from the computed one.
\<close>

theorem status_write_iff:
  assumes "SplitMetaNamespaceKey c key = Inr (ns, name)"
    and "functionbuildGet c ns name = Inr original"
    and "reconcile h c original [] = (r, fb', eff1)"
    and "r \<noteq> Panic"
  shows "(semanticStatusEqual (fbStatus original) (fbStatus fb') \<longrightarrow>
       Reconcile h c key [] = (r, eff1)) \<and>
    (\<not> semanticStatusEqual (fbStatus original) (fbStatus fb') \<longrightarrow>
       (\<forall>gErr. functionbuildGetAgain c (Namespace (fbObjectMeta fb')) (Name (fbObjectMeta fb')) =
                 Inl gErr \<longrightarrow>
          Reconcile h c key [] =
            (Err gErr, eff1 @ [Eventf ''Warning'' ''UpdateFailed'' (Name (fbObjectMeta fb'))])) \<and>
       (\<forall>cur. functionbuildGetAgain c (Namespace (fbObjectMeta fb')) (Name (fbObjectMeta fb')) =
                 Inr cur \<and> reflectStatusEqual (fbStatus cur) (fbStatus fb') \<longrightarrow>
          Reconcile h c key [] =
            (r, if r = Ok ()
                then eff1 @ [Eventf ''Normal'' ''Updated'' (Name (fbObjectMeta fb'))]
                else eff1))) \<and>
    ((\<exists>x\<in>set (snd (Reconcile h c key [])). writesStatus x) \<longleftrightarrow>
       \<not> semanticStatusEqual (fbStatus original) (fbStatus fb') \<and>
       (\<exists>cur. functionbuildGetAgain c (Namespace (fbObjectMeta fb')) (Name (fbObjectMeta fb')) =
                 Inr cur \<and> \<not> reflectStatusEqual (fbStatus cur) (fbStatus fb')))"
proof -
  have "appends (\<lambda>e. \<not> writesStatus e) [] eff1"
    using reconcile_effects [OF assms(3)] .
  then have quiet: "\<forall>x\<in>set eff1. \<not> writesStatus x"
    by (auto simp: appends_def)
  show ?thesis
  proof (cases "semanticStatusEqual (fbStatus original) (fbStatus fb')")
    case True
    from Reconcile_unchanged [OF assms(1,2,3) True] quiet True
    show ?thesis by simp
  next
    case False
    note R = Reconcile_changed [OF assms(1,2,3) False assms(4)]
    show ?thesis
    proof (cases "functionbuildGetAgain c (Namespace (fbObjectMeta fb')) (Name (fbObjectMeta fb'))")
      case (Inl gErr)
      with R quiet False show ?thesis by simp
    next
      case (Inr cur)
      show ?thesis
      proof (cases "reflectStatusEqual (fbStatus cur) (fbStatus fb')")
        case True
        with R Inr quiet False show ?thesis by simp
      next
        case ne: False
        with R Inr quiet False show ?thesis
          by (auto split: sum.splits)
      qed
    qed
  qed
qed

theorem status_write_iff_witness:
  "SplitMetaNamespaceKey readyCluster ''ns/fb'' = Inr (''ns'', ''fb'') \<and>
   functionbuildGet readyCluster ''ns'' ''fb'' = Inr testFunctionBuild \<and>
   reconcile exampleHelpers readyCluster testFunctionBuild [] =
     (Ok (), testFunctionBuild\<lparr>fbStatus := resolvedStatus\<rparr>,
      [ResolveCall ''registry/img'' (''ns'', ''riff-build'') skipRegistries]) \<and>
   \<not> semanticStatusEqual (fbStatus testFunctionBuild) resolvedStatus \<and>
   (\<exists>x\<in>set (snd (Reconcile exampleHelpers readyCluster ''ns/fb'' [])). writesStatus x) \<and>
   functionbuildGet convergedCluster ''ns'' ''fb'' =
     Inr (testFunctionBuild\<lparr>fbStatus := resolvedStatus\<rparr>) \<and>
   reconcile exampleHelpers convergedCluster (testFunctionBuild\<lparr>fbStatus := resolvedStatus\<rparr>) [] =
     (Ok (), testFunctionBuild\<lparr>fbStatus := resolvedStatus\<rparr>,
      [ResolveCall ''registry/img'' (''ns'', ''riff-build'') skipRegistries]) \<and>
   Reconcile exampleHelpers convergedCluster ''ns/fb'' [] =
     (Ok (), [ResolveCall ''registry/img'' (''ns'', ''riff-build'') skipRegistries]) \<and>
   reconcile silentHelpers foreignCacheCluster testFunctionBuild [] =
     (Err (DoesNotOwn ''fb'' ''PersistentVolumeClaim'' ''cache-fb''),
      testFunctionBuild\<lparr>fbStatus := zeroStatus\<lparr>Conditions := Some []\<rparr>\<rparr>, []) \<and>
   zeroStatus\<lparr>Conditions := Some []\<rparr> \<noteq> fbStatus testFunctionBuild \<and>
   semanticStatusEqual (fbStatus testFunctionBuild) (zeroStatus\<lparr>Conditions := Some []\<rparr>) \<and>
   Reconcile silentHelpers foreignCacheCluster ''ns/fb'' [] =
     (Err (DoesNotOwn ''fb'' ''PersistentVolumeClaim'' ''cache-fb''), []) \<and>
   reconcile silentHelpers nilSliceCluster testFunctionBuild [] =
     (Ok (), testFunctionBuild\<lparr>fbStatus := emptySliceStatus\<rparr>, []) \<and>
   functionbuildGetAgain nilSliceCluster ''ns'' ''fb'' =
     Inr (testFunctionBuild\<lparr>fbStatus := nilSliceStatus\<rparr>) \<and>
   semanticStatusEqual nilSliceStatus emptySliceStatus \<and>
   \<not> reflectStatusEqual nilSliceStatus emptySliceStatus \<and>
   (\<exists>x\<in>set (snd (Reconcile silentHelpers nilSliceCluster ''ns/fb'' [])). writesStatus x)"
proof -
  let ?fb = "testFunctionBuild\<lparr>fbStatus := resolvedStatus\<rparr>"
  let ?call = "ResolveCall ''registry/img'' (''ns'', ''riff-build'') skipRegistries"
  let ?e = "DoesNotOwn ''fb'' ''PersistentVolumeClaim'' ''cache-fb''"
  let ?init = "testFunctionBuild\<lparr>fbStatus := zeroStatus\<lparr>Conditions := Some []\<rparr>\<rparr>"
  let ?empty = "testFunctionBuild\<lparr>fbStatus := emptySliceStatus\<rparr>"
  let ?nil = "testFunctionBuild\<lparr>fbStatus := nilSliceStatus\<rparr>"
  have 1: "SplitMetaNamespaceKey readyCluster ''ns/fb'' = Inr (''ns'', ''fb'')"
    and 2: "functionbuildGet readyCluster ''ns'' ''fb'' = Inr testFunctionBuild"
    and 3: "reconcile exampleHelpers readyCluster testFunctionBuild [] = (Ok (), ?fb, [?call])"
    by code_simp+
  have 4: "(Ok () :: unit result) \<noteq> Panic" by simp
  have 5: "\<not> semanticStatusEqual (fbStatus testFunctionBuild) (fbStatus ?fb)"
    and 6: "functionbuildGetAgain readyCluster (Namespace (fbObjectMeta ?fb))
      (Name (fbObjectMeta ?fb)) = Inr testFunctionBuild"
    and 7: "\<not> reflectStatusEqual (fbStatus testFunctionBuild) (fbStatus ?fb)"
    by code_simp+
  from status_write_iff [OF 1 2 3 4] 5 6 7
  have A: "\<exists>x\<in>set (snd (Reconcile exampleHelpers readyCluster ''ns/fb'' [])). writesStatus x"
    by blast
  have q1: "SplitMetaNamespaceKey convergedCluster ''ns/fb'' = Inr (''ns'', ''fb'')"
    and q2: "functionbuildGet convergedCluster ''ns'' ''fb'' = Inr ?fb"
    and q3: "reconcile exampleHelpers convergedCluster ?fb [] = (Ok (), ?fb, [?call])"
    and q4: "semanticStatusEqual (fbStatus ?fb) (fbStatus ?fb)"
    by code_simp+
  from status_write_iff [OF q1 q2 q3 4] q4
  have B: "Reconcile exampleHelpers convergedCluster ''ns/fb'' [] = (Ok (), [?call])"
    by blast
  have s1: "SplitMetaNamespaceKey foreignCacheCluster ''ns/fb'' = Inr (''ns'', ''fb'')"
    and s2: "functionbuildGet foreignCacheCluster ''ns'' ''fb'' = Inr testFunctionBuild"
    and s3: "reconcile silentHelpers foreignCacheCluster testFunctionBuild [] = (Err ?e, ?init, [])"
    and s5: "semanticStatusEqual (fbStatus testFunctionBuild) (fbStatus ?init)"
    by code_simp+
  have s4: "(Err ?e :: unit result) \<noteq> Panic" by simp
  from status_write_iff [OF s1 s2 s3 s4] s5
  have C: "Reconcile silentHelpers foreignCacheCluster ''ns/fb'' [] = (Err ?e, [])"
    by blast
  have n1: "SplitMetaNamespaceKey nilSliceCluster ''ns/fb'' = Inr (''ns'', ''fb'')"
    and n2: "functionbuildGet nilSliceCluster ''ns'' ''fb'' = Inr testFunctionBuild"
    and n3: "reconcile silentHelpers nilSliceCluster testFunctionBuild [] = (Ok (), ?empty, [])"
    and n5: "\<not> semanticStatusEqual (fbStatus testFunctionBuild) (fbStatus ?empty)"
    and n6: "functionbuildGetAgain nilSliceCluster (Namespace (fbObjectMeta ?empty))
      (Name (fbObjectMeta ?empty)) = Inr ?nil"
    and n7: "\<not> reflectStatusEqual (fbStatus ?nil) (fbStatus ?empty)"
    by code_simp+
  from status_write_iff [OF n1 n2 n3 4] n5 n6 n7
  have D: "\<exists>x\<in>set (snd (Reconcile silentHelpers nilSliceCluster ''ns/fb'' [])). writesStatus x"
    by blast
  have E: "\<not> semanticStatusEqual (fbStatus testFunctionBuild) resolvedStatus"
    "zeroStatus\<lparr>Conditions := Some []\<rparr> \<noteq> fbStatus testFunctionBuild"
    "semanticStatusEqual (fbStatus testFunctionBuild) (zeroStatus\<lparr>Conditions := Some []\<rparr>)"
    "functionbuildGetAgain nilSliceCluster ''ns'' ''fb'' = Inr ?nil"
    "semanticStatusEqual nilSliceStatus emptySliceStatus"
    "\<not> reflectStatusEqual nilSliceStatus emptySliceStatus"
    by code_simp+
  from 1 2 3 A q2 q3 B s3 C n3 D E show ?thesis by blast
qed

text \<open>
  C4 as it is stated fails. In \<open>caughtUpCluster\<close> the fetched status is empty
  and the computed status is not, so the two differ; the second read in
  \<^verbatim>\<open>updateStatus\<close> already shows the computed status, and the cycle ends
  without a status write: its effects are empty.
\<close>

theorem status_write_iff_counterexample:
  "SplitMetaNamespaceKey caughtUpCluster ''ns/fb'' = Inr (''ns'', ''fb'') \<and>
   functionbuildGet caughtUpCluster ''ns'' ''fb'' = Inr testFunctionBuild \<and>
   reconcile exampleHelpers caughtUpCluster testFunctionBuild [] =
     (Err (DoesNotOwn ''fb'' ''PersistentVolumeClaim'' ''cache-fb''),
      testFunctionBuild\<lparr>fbStatus := cacheNotOwnedStatus\<rparr>, []) \<and>
   cacheNotOwnedStatus \<noteq> fbStatus testFunctionBuild \<and>
   \<not> semanticStatusEqual (fbStatus testFunctionBuild) cacheNotOwnedStatus \<and>
   Reconcile exampleHelpers caughtUpCluster ''ns/fb'' [] =
     (Err (DoesNotOwn ''fb'' ''PersistentVolumeClaim'' ''cache-fb''), [])"
  by code_simp

end
